theory Spec2Isabelle
  imports Complex_Main "HOL-Library.Char_ord" "HOL-Library.List_Lexorder"
    "HOL-Library.Product_Lexorder" "HOL-Library.AList"
begin

section \<open>Errors\<close>

text \<open>
  The exceptions the modelled Python code can raise.  A function that can raise returns
  \<open>error + 'a\<close>, with \<open>Inl\<close> for the exception.
\<close>

datatype error =
  RuntimeError | KeyError | IndexError | TypeError | ValueError | AttributeError | NetworkXError

section \<open>data\_loader.py: the catalog and the history\<close>

text \<open>
  A row of \<open>courses.csv\<close> after \<open>load_courses\<close>: the two list columns are already split.
\<close>

record course =
  course_code :: string
  course_name :: string
  prereq_codes :: "string list"
  lineas_carrera :: "string list"

text \<open>
  A row of \<open>courses_taken.csv\<close>.  Its column \<open>course_code\<close> is the field \<open>taken_code\<close>
  here (the name \<open>course_code\<close> is the catalog's).  Grades are real numbers.
\<close>

record taken =
  alumno :: string
  taken_code :: string
  cycle :: int
  grade :: real

text \<open>
  The \<open>DataLoader\<close> object: both frames are \<open>None\<close> until their \<open>load_*\<close> method ran.
\<close>

record data_loader =
  courses :: "course list option"
  courses_taken :: "taken list option"

text \<open>The dictionary \<open>get_student_history\<close> returns; the two dicts keep their key order.\<close>

record history =
  student_id :: string
  all_courses :: "string list"
  passed_courses :: "string list"
  grades :: "(string \<times> real) list"
  by_cycle :: "(int \<times> (string \<times> real) list) list"

text \<open>
  \<open>student_data.groupby('course_code')['grade'].max()\<close>: one entry per distinct course
  code, keys in ascending order, the value the maximum over the group's grades.  A group
  has at least one row, so the first equation of \<open>max_list\<close> is never used.
\<close>

fun max_list :: "real list \<Rightarrow> real" where
  "max_list [] = 0"
| "max_list (g # gs) = fold max gs g"

definition groupby_max :: "taken list \<Rightarrow> (string \<times> real) list" where
  "groupby_max student_data =
     map (\<lambda>c. (c, max_list (map grade (filter (\<lambda>r. taken_code r = c) student_data))))
       (sort (remdups (map taken_code student_data)))"

text \<open>The loop that fills \<open>by_cycle\<close>: a new key is appended, a known key keeps its place.\<close>

definition by_cycle_add :: "(int \<times> (string \<times> real) list) list \<Rightarrow> taken \<Rightarrow> (int \<times> (string \<times> real) list) list" where
  "by_cycle_add m r =
     (case map_of m (cycle r) of
        None \<Rightarrow> m @ [(cycle r, [(taken_code r, grade r)])]
      | Some xs \<Rightarrow> AList.update (cycle r) (xs @ [(taken_code r, grade r)]) m)"

definition get_student_history :: "data_loader \<Rightarrow> string \<Rightarrow> real \<Rightarrow> error + history" where
  "get_student_history dl sid pass_threshold =
     (case courses_taken dl of
        None \<Rightarrow> Inl RuntimeError
      | Some df \<Rightarrow>
          let student_data = filter (\<lambda>r. alumno r = sid) df in
          if length student_data = 0 then
            Inr \<lparr>student_id = sid, all_courses = [], passed_courses = [], grades = [],
                 by_cycle = []\<rparr>
          else
            let best_grades = groupby_max student_data in
            Inr \<lparr>student_id = sid,
                 all_courses = map taken_code student_data,
                 passed_courses = map fst (filter (\<lambda>(c, g). g \<ge> pass_threshold) best_grades),
                 grades = best_grades,
                 by_cycle = fold (\<lambda>r m. by_cycle_add m r) student_data []\<rparr>)"

definition get_all_students :: "data_loader \<Rightarrow> error + string list" where
  "get_all_students dl =
     (case courses_taken dl of
        None \<Rightarrow> Inl RuntimeError
      | Some df \<Rightarrow> Inr (sort (remdups (map alumno df))))"

definition get_all_courses :: "data_loader \<Rightarrow> error + string list" where
  "get_all_courses dl =
     (case courses dl of
        None \<Rightarrow> Inl RuntimeError
      | Some cs \<Rightarrow> Inr (map course_code cs))"

text \<open>
  \<open>get_course_info\<close>: the first catalog row with the code, or \<open>None\<close>.
\<close>

definition get_course_info :: "data_loader \<Rightarrow> string \<Rightarrow> error + course option" where
  "get_course_info dl code =
     (case courses dl of
        None \<Rightarrow> Inl RuntimeError
      | Some cs \<Rightarrow> Inr (find (\<lambda>c. course_code c = code) cs))"


text \<open>
  \<open>validate_data_consistency\<close>.  An issue is a formatted message in the source; the model
  keeps its kind and the set the message prints.
\<close>

datatype issue = UnknownCourses "string set" | InvalidPrereqs "string set"

record validation =
  valid :: bool
  issues :: "issue list"
  num_courses :: nat
  num_students :: nat
  num_records :: nat

definition validate_data_consistency :: "data_loader \<Rightarrow> error + validation" where
  "validate_data_consistency dl =
     (case (courses dl, courses_taken dl) of
        (Some cs, Some df) \<Rightarrow>
          let catalog_courses = set (map course_code cs);
              taken_courses = set (map taken_code df);
              unknown_courses = taken_courses - catalog_courses;
              issues1 = (if unknown_courses \<noteq> {} then [UnknownCourses unknown_courses] else []);
              all_prereqs = set (concat (map prereq_codes cs));
              invalid_prereqs = all_prereqs - catalog_courses;
              issues2 = issues1 @ (if invalid_prereqs \<noteq> {} then [InvalidPrereqs invalid_prereqs] else [])
          in Inr \<lparr>valid = (length issues2 = 0), issues = issues2,
                  num_courses = card catalog_courses,
                  num_students = length (sort (remdups (map alumno df))),
                  num_records = length df\<rparr>
      | _ \<Rightarrow> Inl RuntimeError)"

section \<open>kg\_builder.py: the knowledge graph\<close>

text \<open>
  The \<open>networkx.MultiDiGraph\<close>: the nodes in insertion order with their \<open>type\<close> attribute
  (absent for a node that \<open>add_edge\<close> created), and the edges in insertion order, parallel
  edges kept.
\<close>

datatype edge_data = BELONGS_TO | HAS_PREREQ | TOOK real bool

record graph =
  nodes :: "(string \<times> string option) list"
  edges :: "(string \<times> string \<times> edge_data) list"

definition empty_graph :: graph where
  "empty_graph = \<lparr>nodes = [], edges = []\<rparr>"

definition has_node :: "graph \<Rightarrow> string \<Rightarrow> bool" where
  "has_node g n = (n \<in> set (map fst (nodes g)))"

definition add_node :: "string \<Rightarrow> string \<Rightarrow> graph \<Rightarrow> graph" where
  "add_node n ty g = nodes_update (AList.update n (Some ty)) g"

definition ensure_node :: "string \<Rightarrow> graph \<Rightarrow> graph" where
  "ensure_node n g = (if has_node g n then g else nodes_update (\<lambda>ns. ns @ [(n, None)]) g)"

definition add_edge :: "string \<Rightarrow> string \<Rightarrow> edge_data \<Rightarrow> graph \<Rightarrow> graph" where
  "add_edge u v d g = edges_update (\<lambda>es. es @ [(u, v, d)]) (ensure_node v (ensure_node u g))"

text \<open>
  Python leaves the iteration order of a \<open>set\<close> of strings unspecified.  Where the source
  iterates over a set or turns one into a list, the model takes the order as a parameter
  \<open>ord\<close>; \<open>set_order ord\<close> says that \<open>ord\<close> lists each finite set's elements once.
  The theorems hold for every such order, or for every \<open>ord\<close> at all.
\<close>

definition set_order :: "(string set \<Rightarrow> string list) \<Rightarrow> bool" where
  "set_order ord = (\<forall>S. finite S \<longrightarrow> set (ord S) = S \<and> distinct (ord S))"

text \<open>
  \<open>build_graph\<close> changes the builder's graph in place; the model takes the graph before
  the call (\<open>empty_graph\<close> for a new builder) and returns the graph after it.  First the
  inner loop of step 5, for one course.
\<close>

definition add_prereq_edges :: "course \<Rightarrow> graph \<Rightarrow> graph" where
  "add_prereq_edges c g =
     fold (\<lambda>prereq g'.
        if has_node g' (''Course:'' @ prereq)
        then add_edge (''Course:'' @ course_code c) (''Course:'' @ prereq) HAS_PREREQ g'
        else g') (prereq_codes c) g"

definition build_graph ::
    "(string set \<Rightarrow> string list) \<Rightarrow> data_loader \<Rightarrow> real \<Rightarrow> graph \<Rightarrow> error + graph" where
  "build_graph ord dl pass_threshold g0 =
     (case courses dl of
        None \<Rightarrow> Inl AttributeError
      | Some cs \<Rightarrow>
          let g1 = fold (\<lambda>c. add_node (''Course:'' @ course_code c) ''course'') cs g0;
              all_lineas = set (concat (map lineas_carrera cs));
              g2 = fold (\<lambda>linea. add_node (''Linea:'' @ linea) ''linea'') (ord all_lineas) g1
          in (case get_all_students dl of
                Inl e \<Rightarrow> Inl e
              | Inr students \<Rightarrow>
                  let g3 = fold (\<lambda>student. add_node (''Student:'' @ student) ''student'') students g2;
                      g4 = fold (\<lambda>c g.
                             fold (\<lambda>linea.
                               add_edge (''Course:'' @ course_code c) (''Linea:'' @ linea) BELONGS_TO)
                               (lineas_carrera c) g) cs g3;
                      g5 = fold add_prereq_edges cs g4
                  in (case courses_taken dl of
                        None \<Rightarrow> Inl AttributeError
                      | Some df \<Rightarrow>
                          Inr (fold (\<lambda>row.
                                 add_edge (''Student:'' @ alumno row) (''Course:'' @ taken_code row)
                                   (TOOK (grade row) (grade row \<ge> pass_threshold))) df g5))))"

text \<open>
  The knowledge-graph builder object: its graph, its embedding table (a dict from node id
  to vector) and the configured dimension.
\<close>

record kg_builder =
  kg_graph :: graph
  embeddings :: "string \<rightharpoonup> real list"
  embedding_dim :: nat

definition get_student_embedding :: "kg_builder \<Rightarrow> string \<Rightarrow> real list" where
  "get_student_embedding kg sid =
     (let node = ''Student:'' @ sid in
      case embeddings kg node of
        Some v \<Rightarrow> v
      | None \<Rightarrow> replicate (embedding_dim kg) 0)"

definition get_course_embedding :: "kg_builder \<Rightarrow> string \<Rightarrow> real list" where
  "get_course_embedding kg code =
     (let node = ''Course:'' @ code in
      case embeddings kg node of
        Some v \<Rightarrow> v
      | None \<Rightarrow> replicate (embedding_dim kg) 0)"

text \<open>
  \<open>graph.neighbors(n)\<close> and \<open>graph.predecessors(n)\<close>: the distinct successors
  (predecessors) in the order their first edge was added; \<open>NetworkXError\<close> for a node that
  is not in the graph.
\<close>

definition first_occurrences :: "'a list \<Rightarrow> 'a list" where
  "first_occurrences xs = rev (remdups (rev xs))"

definition neighbors :: "graph \<Rightarrow> string \<Rightarrow> error + string list" where
  "neighbors g n =
     (if has_node g n
      then Inr (first_occurrences (map (\<lambda>(u, v, d). v) (filter (\<lambda>(u, v, d). u = n) (edges g))))
      else Inl NetworkXError)"

definition predecessors :: "graph \<Rightarrow> string \<Rightarrow> error + string list" where
  "predecessors g n =
     (if has_node g n
      then Inr (first_occurrences (map (\<lambda>(u, v, d). u) (filter (\<lambda>(u, v, d). v = n) (edges g))))
      else Inl NetworkXError)"

definition startswith :: "string \<Rightarrow> string \<Rightarrow> bool" where
  "startswith s p = (take (length p) s = p)"

text \<open>\<open>s.replace("Course:", "")\<close>: every occurrence is removed, scanning from the left.\<close>

function remove_course :: "string \<Rightarrow> string" where
  "remove_course [] = []"
| "remove_course (c # cs) =
     (if startswith (c # cs) ''Course:'' then remove_course (drop 7 (c # cs))
      else c # remove_course cs)"
  by pat_completeness auto
termination
  by (relation "measure length") auto

text \<open>The first loop of \<open>get_course_neighbors\<close>: courses that share a track node.\<close>

fun linea_neighbors :: "graph \<Rightarrow> string \<Rightarrow> string list \<Rightarrow> error + (string \<times> string) list" where
  "linea_neighbors g course_node [] = Inr []"
| "linea_neighbors g course_node (neighbor # ns) =
     (if startswith neighbor ''Linea:'' then
        (case predecessors g neighbor of
           Inl e \<Rightarrow> Inl e
         | Inr ps \<Rightarrow>
             (case linea_neighbors g course_node ns of
                Inl e \<Rightarrow> Inl e
              | Inr rest \<Rightarrow>
                  Inr (map (\<lambda>p. (remove_course p, ''linea''))
                         (filter (\<lambda>p. startswith p ''Course:'' \<and> p \<noteq> course_node) ps) @ rest)))
      else linea_neighbors g course_node ns)"

definition get_course_neighbors :: "kg_builder \<Rightarrow> string \<Rightarrow> nat \<Rightarrow> error + (string \<times> string) list" where
  "get_course_neighbors kg code k =
     (let course_node = ''Course:'' @ code in
      case neighbors (kg_graph kg) course_node of
        Inl e \<Rightarrow> Inl e
      | Inr ns \<Rightarrow>
          (case linea_neighbors (kg_graph kg) course_node ns of
             Inl e \<Rightarrow> Inl e
           | Inr by_linea \<Rightarrow>
               Inr (take k (by_linea @
                      map (\<lambda>n. (remove_course n, ''prereq''))
                        (filter (\<lambda>n. startswith n ''Course:'') ns)))))"

section \<open>recommend.py: the orchestrator\<close>

definition OBLIGATORY_COURSES :: "string set" where
  "OBLIGATORY_COURSES =
     {''BAE01'', ''BFI01'', ''BIC01'', ''BMA01'', ''BMA03'', ''BRN01'', ''CBS01'',
      ''BFI05'', ''BMA02'', ''BMA09'', ''BQU01'', ''BRC01'', ''CBS02'',
      ''BEG01'', ''BFI03'', ''BMA05'', ''BMA10'', ''BMA15'', ''EE306'',
      ''BEF01'', ''CBN01'', ''BMA07'', ''BMA18'', ''EE320'', ''EE410'', ''BIE01'',
      ''BMA22'', ''TLR01'', ''TLN01'', ''EE428'', ''EE522'', ''CBS05'',
      ''EE430'', ''TLR02'', ''EE458'', ''EE588'', ''EE604'', ''TLN02'',
      ''TLR03'', ''EE530'', ''EE590'',
      ''BEG06'', ''EE498'', ''EE592'',
      ''TLR04'', ''CIB45'', ''TLR05'',
      ''EE712'', ''CIB46''}"

text \<open>
  The \<open>CourseRecommender\<close> object.  The three numeric collaborators (the fusion network's
  \<open>predict_score\<close>, the collaborative filter's \<open>predict_score\<close> and the content model's
  \<open>compute_similarity\<close>) are parameters: the number each call returns.
\<close>

record course_recommender =
  rec_data_loader :: data_loader
  rec_kg_builder :: kg_builder
  hybrid_predict_score :: "string \<Rightarrow> string \<Rightarrow> real"
  cf_predict_score :: "string \<Rightarrow> string \<Rightarrow> real"
  content_compute_similarity :: "string \<Rightarrow> string \<Rightarrow> real"

definition cumple_prereqs :: "course_recommender \<Rightarrow> string \<Rightarrow> string \<Rightarrow> error + bool" where
  "cumple_prereqs self sid code =
     (case get_course_info (rec_data_loader self) code of
        Inl e \<Rightarrow> Inl e
      | Inr None \<Rightarrow> Inr True
      | Inr (Some course_info) \<Rightarrow>
          let prereqs = prereq_codes course_info in
          if prereqs = [] then Inr True
          else
            (case get_student_history (rec_data_loader self) sid 10 of
               Inl e \<Rightarrow> Inl e
             | Inr h \<Rightarrow>
                 let passed = set (passed_courses h)
                 in Inr (list_all (\<lambda>p. p \<in> passed) prereqs)))"

text \<open>The loop of \<open>calcular_peso_lineas\<close> over the passed courses.\<close>

fun related_grades :: "data_loader \<Rightarrow> string set \<Rightarrow> history \<Rightarrow> string list \<Rightarrow> error + real list" where
  "related_grades dl course_lineas h [] = Inr []"
| "related_grades dl course_lineas h (passed_course # rest) =
     (case get_course_info dl passed_course of
        Inl e \<Rightarrow> Inl e
      | Inr passed_info \<Rightarrow>
          (case related_grades dl course_lineas h rest of
             Inl e \<Rightarrow> Inl e
           | Inr gs \<Rightarrow>
               (case passed_info of
                  None \<Rightarrow> Inr gs
                | Some pinfo \<Rightarrow>
                    if lineas_carrera pinfo \<noteq> [] \<and> course_lineas \<inter> set (lineas_carrera pinfo) \<noteq> {}
                    then Inr ((case map_of (grades h) passed_course of Some g \<Rightarrow> g | None \<Rightarrow> 0) # gs)
                    else Inr gs)))"

definition calcular_peso_lineas :: "course_recommender \<Rightarrow> string \<Rightarrow> string \<Rightarrow> error + real" where
  "calcular_peso_lineas self sid code =
     (case get_course_info (rec_data_loader self) code of
        Inl e \<Rightarrow> Inl e
      | Inr None \<Rightarrow> Inr 0
      | Inr (Some course_info) \<Rightarrow>
          if lineas_carrera course_info = [] then Inr 0
          else
            let course_lineas = set (lineas_carrera course_info) in
            (case get_student_history (rec_data_loader self) sid 10 of
               Inl e \<Rightarrow> Inl e
             | Inr h \<Rightarrow>
                 (case related_grades (rec_data_loader self) course_lineas h (passed_courses h) of
                    Inl e \<Rightarrow> Inl e
                  | Inr gs \<Rightarrow>
                      if gs \<noteq> [] then
                        let avg_grade = sum_list gs / real (length gs);
                            peso = (avg_grade - 10) / 10
                        in Inr (max 0 (min 1 peso))
                      else Inr 0)))"

record explanation =
  content_similarity :: real
  kg_neighbors :: "(string \<times> string) list"
  collaborative_score :: real
  lineas_performance :: real
  prerequisites :: "string list"
  prerequisites_met :: bool

definition explain_recommendation :: "course_recommender \<Rightarrow> string \<Rightarrow> string \<Rightarrow> error + explanation" where
  "explain_recommendation self sid code =
     (let content_sim = content_compute_similarity self sid code in
      case get_course_neighbors (rec_kg_builder self) code 3 of
        Inl e \<Rightarrow> Inl e
      | Inr neighbors_found \<Rightarrow>
          let cf_score = cf_predict_score self sid code in
          (case calcular_peso_lineas self sid code of
             Inl e \<Rightarrow> Inl e
           | Inr lineas_weight \<Rightarrow>
               (case get_course_info (rec_data_loader self) code of
                  Inl e \<Rightarrow> Inl e
                | Inr course_info \<Rightarrow>
                    (case cumple_prereqs self sid code of
                       Inl e \<Rightarrow> Inl e
                     | Inr met \<Rightarrow>
                         Inr \<lparr>content_similarity = content_sim,
                              kg_neighbors = neighbors_found,
                              collaborative_score = cf_score,
                              lineas_performance = lineas_weight,
                              prerequisites =
                                (case course_info of Some ci \<Rightarrow> prereq_codes ci | None \<Rightarrow> []),
                              prerequisites_met = met\<rparr>))))"

text \<open>An entry of the list \<open>scores\<close>, and an entry of the returned list.\<close>

record score_item =
  item_course_code :: string
  item_score :: real
  item_priority :: nat
  item_is_failed :: bool
  item_is_obligatory :: bool
  item_lineas_weight :: real

record recommendation =
  rec_course_code :: string
  rec_course_name :: string
  rec_score :: real
  rec_lineas_carrera :: "string list"
  rec_is_failed :: bool
  rec_is_obligatory :: bool
  rec_priority :: nat
  rec_reasons :: explanation

text \<open>Step 4 of \<open>recomendar_cursos\<close>: the loop that scores the candidates.\<close>

fun score_candidates ::
    "course_recommender \<Rightarrow> string \<Rightarrow> string set \<Rightarrow> string set \<Rightarrow> string list \<Rightarrow> error + score_item list" where
  "score_candidates self sid failed_courses not_taken_obligatory [] = Inr []"
| "score_candidates self sid failed_courses not_taken_obligatory (c # cs) =
     (case cumple_prereqs self sid c of
        Inl e \<Rightarrow> Inl e
      | Inr False \<Rightarrow> score_candidates self sid failed_courses not_taken_obligatory cs
      | Inr True \<Rightarrow>
          let hybrid_score = hybrid_predict_score self sid c in
          (case calcular_peso_lineas self sid c of
             Inl e \<Rightarrow> Inl e
           | Inr lineas_weight \<Rightarrow>
               let final_score = hybrid_score + lineas_weight * 0.5;
                   boosted =
                     (if c \<in> failed_courses then (final_score + 2, 1)
                      else if c \<in> not_taken_obligatory then (final_score + 1, 2)
                      else (final_score, 3))
               in (case score_candidates self sid failed_courses not_taken_obligatory cs of
                     Inl e \<Rightarrow> Inl e
                   | Inr rest \<Rightarrow>
                       Inr (\<lparr>item_course_code = c, item_score = fst boosted,
                             item_priority = snd boosted,
                             item_is_failed = (c \<in> failed_courses),
                             item_is_obligatory = (c \<in> OBLIGATORY_COURSES),
                             item_lineas_weight = lineas_weight\<rparr> # rest))))"

text \<open>Python's \<open>xs[:k]\<close>: a negative \<open>k\<close> drops the last \<open>-k\<close> elements.\<close>

definition py_prefix :: "'a list \<Rightarrow> int \<Rightarrow> 'a list" where
  "py_prefix xs k = (if k \<ge> 0 then take (nat k) xs else take (length xs - nat (- k)) xs)"

text \<open>Step 6: the loop that attaches the explanation and the catalog data.\<close>

fun attach_explanations :: "course_recommender \<Rightarrow> string \<Rightarrow> score_item list \<Rightarrow> error + recommendation list" where
  "attach_explanations self sid [] = Inr []"
| "attach_explanations self sid (item # items) =
     (let c = item_course_code item in
      case explain_recommendation self sid c of
        Inl e \<Rightarrow> Inl e
      | Inr expl \<Rightarrow>
          (case get_course_info (rec_data_loader self) c of
             Inl e \<Rightarrow> Inl e
           | Inr course_info \<Rightarrow>
               (case attach_explanations self sid items of
                  Inl e \<Rightarrow> Inl e
                | Inr rest \<Rightarrow>
                    Inr (\<lparr>rec_course_code = c,
                          rec_course_name = (case course_info of Some ci \<Rightarrow> course_name ci | None \<Rightarrow> []),
                          rec_score = item_score item,
                          rec_lineas_carrera = (case course_info of Some ci \<Rightarrow> lineas_carrera ci | None \<Rightarrow> []),
                          rec_is_failed = item_is_failed item,
                          rec_is_obligatory = item_is_obligatory item,
                          rec_priority = item_priority item,
                          rec_reasons = expl\<rparr> # rest))))"

definition recomendar_cursos ::
    "(string set \<Rightarrow> string list) \<Rightarrow> course_recommender \<Rightarrow> string \<Rightarrow> int \<Rightarrow> error + recommendation list" where
  "recomendar_cursos ord self sid top_k =
     (case get_student_history (rec_data_loader self) sid 10 of
        Inl e \<Rightarrow> Inl e
      | Inr h \<Rightarrow>
          (case get_all_courses (rec_data_loader self) of
             Inl e \<Rightarrow> Inl e
           | Inr catalog \<Rightarrow>
               let all_courses_set = set catalog;
                   passed = set (passed_courses h);
                   all_taken = set (all_courses h);
                   failed_courses = (all_taken - passed) \<inter> OBLIGATORY_COURSES;
                   not_taken_obligatory = OBLIGATORY_COURSES - all_taken;
                   other_courses = all_courses_set - passed - OBLIGATORY_COURSES;
                   prioritized_candidates =
                     ord failed_courses @ ord not_taken_obligatory @ ord other_courses
               in if prioritized_candidates = [] then Inr []
                  else
                    (case score_candidates self sid failed_courses not_taken_obligatory
                            prioritized_candidates of
                       Inl e \<Rightarrow> Inl e
                     | Inr scores \<Rightarrow>
                         let sorted_scores = sort_key (\<lambda>x. (item_priority x, - item_score x)) scores
                         in attach_explanations self sid (py_prefix sorted_scores top_k))))"

section \<open>kg\_builder.py: the embedding update\<close>

text \<open>
  Vectors are lists of reals.  \<open>np.dot\<close> of two vectors of different lengths raises
  \<open>ValueError\<close>; the update checks it once, before the arithmetic.
\<close>

definition dot :: "real list \<Rightarrow> real list \<Rightarrow> real" where
  "dot u v = sum_list (map2 (*) u v)"

definition scale :: "real \<Rightarrow> real list \<Rightarrow> real list" where
  "scale a v = map (\<lambda>x. a * x) v"

definition vsub :: "real list \<Rightarrow> real list \<Rightarrow> real list" where
  "vsub u v = map2 (-) u v"

definition norm2 :: "real list \<Rightarrow> real" where
  "norm2 v = sqrt (sum_list (map (\<lambda>x. x * x) v))"

text \<open>
  The body of the inner loop of \<open>_update_embeddings\<close> for the pair \<open>(node, context_node)\<close>.
  Both \<open>-=\<close> work in place on the stored arrays: the second statement reads
  \<open>self.embeddings[node]\<close> after the first one has changed it, and when both names are the
  same node it also updates that array.
\<close>

definition pair_update ::
    "(string \<rightharpoonup> real list) \<Rightarrow> string \<Rightarrow> string \<Rightarrow> real \<Rightarrow> error + (string \<rightharpoonup> real list)" where
  "pair_update emb node context_node learning_rate =
     (case emb node of
        None \<Rightarrow> Inl KeyError
      | Some u \<Rightarrow>
          (case emb context_node of
             None \<Rightarrow> Inl KeyError
           | Some v \<Rightarrow>
               if length u \<noteq> length v then Inl ValueError
               else
                 let similarity = dot u v;
                     gradient = (similarity - 1) * learning_rate;
                     u' = vsub u (scale gradient v);
                     emb1 = emb(node \<mapsto> u');
                     v1 = (if context_node = node then u' else v)
                 in Inr (emb1(context_node \<mapsto> vsub v1 (scale gradient u')))))"

text \<open>A loop whose body can raise: the first error ends it.\<close>

fun fold_err :: "('a \<Rightarrow> 's \<Rightarrow> error + 's) \<Rightarrow> 'a list \<Rightarrow> 's \<Rightarrow> error + 's" where
  "fold_err f [] s = Inr s"
| "fold_err f (x # xs) s = (case f x s of Inl e \<Rightarrow> Inl e | Inr s' \<Rightarrow> fold_err f xs s')"

text \<open>The positions \<open>j\<close> the inner loop visits for position \<open>i\<close> of a walk of length \<open>n\<close>.\<close>

definition window_size :: nat where
  "window_size = 5"

definition context_positions :: "nat \<Rightarrow> nat \<Rightarrow> nat list" where
  "context_positions n i =
     (let context_start = nat (max 0 (int i - int window_size));
          context_end = min n (i + window_size + 1)
      in filter (\<lambda>j. i \<noteq> j \<and> j < n) [context_start..<context_end])"

definition normalize :: "string \<Rightarrow> (string \<rightharpoonup> real list) \<Rightarrow> error + (string \<rightharpoonup> real list)" where
  "normalize node emb =
     (case emb node of
        None \<Rightarrow> Inl KeyError
      | Some w \<Rightarrow>
          let norm = norm2 w + 1 / 10 ^ 10
          in Inr (emb(node \<mapsto> map (\<lambda>x. x / norm) w)))"

text \<open>
  One round of the outer loop of \<open>_update_embeddings(walk, dim, learning_rate)\<close>: position
  \<open>i\<close> of the walk.  The source does not use \<open>dim\<close>; \<open>train_node2vec\<close> calls it with the
  default \<open>learning_rate = 0.01\<close>.
\<close>

definition update_position ::
    "string list \<Rightarrow> real \<Rightarrow> nat \<Rightarrow> (string \<rightharpoonup> real list) \<Rightarrow> error + (string \<rightharpoonup> real list)" where
  "update_position walk learning_rate i emb =
     (let node = walk ! i in
      case fold_err (\<lambda>j e. pair_update e node (walk ! j) learning_rate)
             (context_positions (length walk) i) emb of
        Inl e \<Rightarrow> Inl e
      | Inr emb' \<Rightarrow> normalize node emb')"

definition update_embeddings ::
    "string list \<Rightarrow> real \<Rightarrow> (string \<rightharpoonup> real list) \<Rightarrow> error + (string \<rightharpoonup> real list)" where
  "update_embeddings walk learning_rate emb =
     fold_err (update_position walk learning_rate) [0..<length walk] emb"

text \<open>
  The rule as the specification words it, for comparison: both subtractions read the
  embeddings the pair had before the update.
\<close>

definition pair_update_pre ::
    "(string \<rightharpoonup> real list) \<Rightarrow> string \<Rightarrow> string \<Rightarrow> real \<Rightarrow> error + (string \<rightharpoonup> real list)" where
  "pair_update_pre emb node context_node learning_rate =
     (case emb node of
        None \<Rightarrow> Inl KeyError
      | Some u \<Rightarrow>
          (case emb context_node of
             None \<Rightarrow> Inl KeyError
           | Some v \<Rightarrow>
               if length u \<noteq> length v then Inl ValueError
               else
                 let gradient = (dot u v - 1) * learning_rate
                 in Inr (emb(node \<mapsto> vsub u (scale gradient v),
                             context_node \<mapsto> vsub v (scale gradient u)))))"

section \<open>cf\_model.py: the collaborative filter\<close>

text \<open>A numpy float that may be infinite: masking writes \<open>-inf\<close>, negation makes it \<open>+inf\<close>.\<close>

datatype xreal = MInf | Fin real | PInf

instantiation xreal :: linorder
begin

fun less_eq_xreal :: "xreal \<Rightarrow> xreal \<Rightarrow> bool" where
  "less_eq_xreal MInf y = True"
| "less_eq_xreal (Fin a) MInf = False"
| "less_eq_xreal (Fin a) (Fin b) = (a \<le> b)"
| "less_eq_xreal (Fin a) PInf = True"
| "less_eq_xreal PInf PInf = True"
| "less_eq_xreal PInf y = False"

definition less_xreal :: "xreal \<Rightarrow> xreal \<Rightarrow> bool" where
  "less_xreal x y = (x \<le> y \<and> \<not> y \<le> x)"

instance
proof
  fix x y z :: xreal
  show "(x < y) = (x \<le> y \<and> \<not> y \<le> x)" by (simp add: less_xreal_def)
  show "x \<le> x" by (cases x) simp_all
  show "x \<le> y \<Longrightarrow> y \<le> z \<Longrightarrow> x \<le> z" by (cases x; cases y; cases z) simp_all
  show "x \<le> y \<Longrightarrow> y \<le> x \<Longrightarrow> x = y" by (cases x; cases y) simp_all
  show "x \<le> y \<or> y \<le> x" by (cases x; cases y) auto
qed

end

fun neg_xreal :: "xreal \<Rightarrow> xreal" where
  "neg_xreal MInf = PInf"
| "neg_xreal (Fin a) = Fin (- a)"
| "neg_xreal PInf = MInf"

text \<open>
  \<open>np.argsort\<close>: the indices in ascending order of their values.  Equal values keep their
  index order here; numpy's default sort does not promise an order among them.
\<close>

definition argsort :: "xreal list \<Rightarrow> nat list" where
  "argsort xs = sort_key (\<lambda>i. xs ! i) [0..<length xs]"

text \<open>The parts of the preprocessor the filter reads: its index dictionaries.\<close>

record preprocessor =
  student_to_idx :: "string \<rightharpoonup> nat"
  course_to_idx :: "string \<rightharpoonup> nat"
  idx_to_course :: "nat \<rightharpoonup> string"

text \<open>
  The model object: the factor matrices and the interaction matrix are \<open>None\<close> until
  \<open>train\<close> or \<open>load_model\<close> ran; a matrix is the list of its rows.
\<close>

record cf_model =
  cf_preprocessor :: preprocessor
  factors :: nat
  user_factors :: "real list list option"
  item_factors :: "real list list option"
  interaction_matrix :: "real list list option"

text \<open>The last loop of \<open>recommend\<close>: the course code and the raw score of each index.\<close>

fun build_recommendations :: "(nat \<rightharpoonup> string) \<Rightarrow> real list \<Rightarrow> nat list \<Rightarrow> error + (string \<times> real) list" where
  "build_recommendations i2c scores [] = Inr []"
| "build_recommendations i2c scores (idx # rest) =
     (case i2c idx of
        None \<Rightarrow> Inl KeyError
      | Some code \<Rightarrow>
          (case build_recommendations i2c scores rest of
             Inl e \<Rightarrow> Inl e
           | Inr recs \<Rightarrow> Inr ((code, scores ! idx) # recs)))"

definition recommend :: "cf_model \<Rightarrow> string \<Rightarrow> int \<Rightarrow> error + (string \<times> real) list" where
  "recommend cf sid top_k =
     (case student_to_idx (cf_preprocessor cf) sid of
        None \<Rightarrow> Inr []
      | Some student_idx \<Rightarrow>
          (case (user_factors cf, item_factors cf, interaction_matrix cf) of
             (Some U, Some V, Some M) \<Rightarrow>
               if student_idx \<ge> length U then Inl IndexError
               else
                 let user_emb = U ! student_idx in
                 if \<not> list_all (\<lambda>row. length row = length user_emb) V then Inl ValueError
                 else
                   let scores = map (\<lambda>row. dot row user_emb) V in
                   if student_idx \<ge> length M then Inl IndexError
                   else
                     let row = M ! student_idx;
                         taken_items = filter (\<lambda>j. row ! j \<noteq> 0) [0..<length row]
                     in if \<not> list_all (\<lambda>j. j < length scores) taken_items then Inl IndexError
                        else
                          let scores_copy =
                                map (\<lambda>j. if j \<in> set taken_items then MInf else Fin (scores ! j))
                                  [0..<length scores];
                              top_indices = py_prefix (argsort (map neg_xreal scores_copy)) top_k
                          in build_recommendations (idx_to_course (cf_preprocessor cf)) scores top_indices
           | _ \<Rightarrow> Inl TypeError))"

section \<open>Notions used in the statements\<close>

text \<open>The records of one student for one course: the attempts, in file order.\<close>

definition attempts :: "taken list \<Rightarrow> string \<Rightarrow> string \<Rightarrow> taken list" where
  "attempts df sid c = filter (\<lambda>r. alumno r = sid \<and> taken_code r = c) df"

text \<open>\<open>history['grades'].get(c, 0)\<close>: the best grade the history records for a course.\<close>

definition best_grade :: "history \<Rightarrow> string \<Rightarrow> real" where
  "best_grade h c = (case map_of (grades h) c of Some g \<Rightarrow> g | None \<Rightarrow> 0)"

text \<open>Two catalog courses share a track: both are in the catalog and their track lists meet.\<close>

definition shares_track :: "course list \<Rightarrow> string \<Rightarrow> string \<Rightarrow> bool" where
  "shares_track cs a b =
     (case (find (\<lambda>c. course_code c = a) cs, find (\<lambda>c. course_code c = b) cs) of
        (Some ca, Some cb) \<Rightarrow> set (lineas_carrera ca) \<inter> set (lineas_carrera cb) \<noteq> {}
      | _ \<Rightarrow> False)"

subsection \<open>A catalog with two failed obligatory courses\<close>

definition demo_catalog :: "course list" where
  "demo_catalog =
     [\<lparr>course_code = ''X1'', course_name = ''Circuitos'', prereq_codes = [],
       lineas_carrera = [''T1'']\<rparr>,
      \<lparr>course_code = ''X2'', course_name = ''Circuitos 2'', prereq_codes = [''X1''],
       lineas_carrera = [''T1'']\<rparr>,
      \<lparr>course_code = ''X3'', course_name = ''Circuitos 3'', prereq_codes = [''X2'', ''X9''],
       lineas_carrera = [''T1'', ''T2'']\<rparr>,
      \<lparr>course_code = ''BAE01'', course_name = ''Algebra'', prereq_codes = [],
       lineas_carrera = [''T1'']\<rparr>,
      \<lparr>course_code = ''BFI01'', course_name = ''Fisica'', prereq_codes = [],
       lineas_carrera = []\<rparr>,
      \<lparr>course_code = ''BIC01'', course_name = ''Computacion'', prereq_codes = [''X1''],
       lineas_carrera = [''T1'']\<rparr>]"

definition demo_taken :: "taken list" where
  "demo_taken =
     [\<lparr>alumno = ''s1'', taken_code = ''X1'', cycle = 1, grade = 15\<rparr>,
      \<lparr>alumno = ''s1'', taken_code = ''BAE01'', cycle = 1, grade = 8\<rparr>,
      \<lparr>alumno = ''s1'', taken_code = ''BFI01'', cycle = 1, grade = 5\<rparr>,
      \<lparr>alumno = ''s1'', taken_code = ''BFI01'', cycle = 2, grade = 9\<rparr>,
      \<lparr>alumno = ''s2'', taken_code = ''X1'', cycle = 1, grade = 12\<rparr>]"

definition demo_loader :: data_loader where
  "demo_loader = \<lparr>courses = Some demo_catalog, courses_taken = Some demo_taken\<rparr>"

definition demo_graph :: graph where
  "demo_graph =
     \<lparr>nodes =
        [(''Course:X1'', Some ''course''), (''Course:X2'', Some ''course''),
         (''Course:X3'', Some ''course''), (''Course:BAE01'', Some ''course''),
         (''Course:BFI01'', Some ''course''), (''Course:BIC01'', Some ''course''),
         (''Linea:T1'', Some ''linea''), (''Linea:T2'', Some ''linea''),
         (''Student:s1'', Some ''student''), (''Student:s2'', Some ''student'')],
      edges =
        [(''Course:X1'', ''Linea:T1'', BELONGS_TO),
         (''Course:X2'', ''Linea:T1'', BELONGS_TO),
         (''Course:X3'', ''Linea:T1'', BELONGS_TO),
         (''Course:X3'', ''Linea:T2'', BELONGS_TO),
         (''Course:BAE01'', ''Linea:T1'', BELONGS_TO),
         (''Course:BIC01'', ''Linea:T1'', BELONGS_TO),
         (''Course:X2'', ''Course:X1'', HAS_PREREQ),
         (''Course:X3'', ''Course:X2'', HAS_PREREQ),
         (''Course:BIC01'', ''Course:X1'', HAS_PREREQ),
         (''Student:s1'', ''Course:X1'', TOOK 15 True),
         (''Student:s1'', ''Course:BAE01'', TOOK 8 False),
         (''Student:s1'', ''Course:BFI01'', TOOK 5 False),
         (''Student:s1'', ''Course:BFI01'', TOOK 9 False),
         (''Student:s2'', ''Course:X1'', TOOK 12 True)]\<rparr>"

definition demo_recommender :: course_recommender where
  "demo_recommender =
     \<lparr>rec_data_loader = demo_loader,
      rec_kg_builder = \<lparr>kg_graph = demo_graph, embeddings = Map.empty, embedding_dim = 64\<rparr>,
      hybrid_predict_score =
        (\<lambda>s c. if c = ''BFI01'' then 0.7 else if c = ''BAE01'' then 0.3
                else if c = ''BIC01'' then 0.9 else 0.1),
      cf_predict_score = (\<lambda>s c. 0),
      content_compute_similarity = (\<lambda>s c. 0)\<rparr>"

definition demo_result :: "recommendation list" where
  "demo_result =
     [\<lparr>rec_course_code = ''BFI01'', rec_course_name = ''Fisica'', rec_score = 27 / 10,
       rec_lineas_carrera = [], rec_is_failed = True, rec_is_obligatory = True,
       rec_priority = 1,
       rec_reasons =
         \<lparr>content_similarity = 0, kg_neighbors = [], collaborative_score = 0,
          lineas_performance = 0, prerequisites = [], prerequisites_met = True\<rparr>\<rparr>,
      \<lparr>rec_course_code = ''BAE01'', rec_course_name = ''Algebra'', rec_score = 51 / 20,
       rec_lineas_carrera = [''T1''], rec_is_failed = True, rec_is_obligatory = True,
       rec_priority = 1,
       rec_reasons =
         \<lparr>content_similarity = 0,
          kg_neighbors = [(''X1'', ''linea''), (''X2'', ''linea''), (''X3'', ''linea'')],
          collaborative_score = 0, lineas_performance = 1 / 2, prerequisites = [],
          prerequisites_met = True\<rparr>\<rparr>,
      \<lparr>rec_course_code = ''BIC01'', rec_course_name = ''Computacion'', rec_score = 43 / 20,
       rec_lineas_carrera = [''T1''], rec_is_failed = False, rec_is_obligatory = True,
       rec_priority = 2,
       rec_reasons =
         \<lparr>content_similarity = 0,
          kg_neighbors = [(''X1'', ''linea''), (''X2'', ''linea''), (''X3'', ''linea'')],
          collaborative_score = 0, lineas_performance = 1 / 2, prerequisites = [''X1''],
          prerequisites_met = True\<rparr>\<rparr>]"

subsection \<open>A student who passed a related course with grade 10\<close>

definition peso_loader :: data_loader where
  "peso_loader =
     \<lparr>courses = Some
        [\<lparr>course_code = ''X'', course_name = ''Redes'', prereq_codes = [],
          lineas_carrera = [''T'']\<rparr>,
         \<lparr>course_code = ''Y'', course_name = ''Redes 2'', prereq_codes = [''X''],
          lineas_carrera = [''T'']\<rparr>],
       courses_taken = Some [\<lparr>alumno = ''s1'', taken_code = ''X'', cycle = 1, grade = 10\<rparr>]\<rparr>"

definition peso_recommender :: course_recommender where
  "peso_recommender =
     \<lparr>rec_data_loader = peso_loader,
      rec_kg_builder = \<lparr>kg_graph = empty_graph, embeddings = Map.empty, embedding_dim = 64\<rparr>,
      hybrid_predict_score = (\<lambda>s c. 0),
      cf_predict_score = (\<lambda>s c. 0),
      content_compute_similarity = (\<lambda>s c. 0)\<rparr>"

subsection \<open>An obligatory course that is not in the catalog\<close>

text \<open>
  The catalog has two courses, neither obligatory.  Student \<open>s1\<close> passed \<open>X1\<close>; student \<open>s2\<close>
  took \<open>BAE01\<close>, which the catalog does not list.  \<open>c10_graph\<close> is the graph
  \<open>build_graph\<close> makes from these data; the recommender is given with the graph its
  builder holds.
\<close>

definition c10_loader :: data_loader where
  "c10_loader =
     \<lparr>courses = Some
        [\<lparr>course_code = ''X1'', course_name = ''Circuitos'', prereq_codes = [],
          lineas_carrera = [''T1'']\<rparr>,
         \<lparr>course_code = ''X2'', course_name = ''Circuitos 2'', prereq_codes = [''X1''],
          lineas_carrera = [''T1'']\<rparr>],
       courses_taken = Some
        [\<lparr>alumno = ''s1'', taken_code = ''X1'', cycle = 1, grade = 14\<rparr>,
         \<lparr>alumno = ''s2'', taken_code = ''BAE01'', cycle = 1, grade = 12\<rparr>]\<rparr>"

definition c10_graph :: graph where
  "c10_graph =
     \<lparr>nodes =
        [(''Course:X1'', Some ''course''), (''Course:X2'', Some ''course''),
         (''Linea:T1'', Some ''linea''),
         (''Student:s1'', Some ''student''), (''Student:s2'', Some ''student''),
         (''Course:BAE01'', None)],
      edges =
        [(''Course:X1'', ''Linea:T1'', BELONGS_TO),
         (''Course:X2'', ''Linea:T1'', BELONGS_TO),
         (''Course:X2'', ''Course:X1'', HAS_PREREQ),
         (''Student:s1'', ''Course:X1'', TOOK 14 True),
         (''Student:s2'', ''Course:BAE01'', TOOK 12 True)]\<rparr>"

definition c10_recommender :: "graph \<Rightarrow> course_recommender" where
  "c10_recommender g =
     \<lparr>rec_data_loader = c10_loader,
      rec_kg_builder = \<lparr>kg_graph = g, embeddings = Map.empty, embedding_dim = 64\<rparr>,
      hybrid_predict_score = (\<lambda>s c. if c = ''BAE01'' then 0.9 else 0.1),
      cf_predict_score = (\<lambda>s c. 0),
      content_compute_similarity = (\<lambda>s c. 0)\<rparr>"

definition c10_result :: "recommendation list" where
  "c10_result =
     [\<lparr>rec_course_code = ''BAE01'', rec_course_name = [], rec_score = 19 / 10,
       rec_lineas_carrera = [], rec_is_failed = False, rec_is_obligatory = True,
       rec_priority = 2,
       rec_reasons =
         \<lparr>content_similarity = 0, kg_neighbors = [], collaborative_score = 0,
          lineas_performance = 0, prerequisites = [], prerequisites_met = True\<rparr>\<rparr>]"

subsection \<open>The graph's prerequisite edges and course nodes\<close>

text \<open>The \<open>HAS_PREREQ\<close> edges of a graph, in insertion order.\<close>

definition has_prereq_edges :: "graph \<Rightarrow> (string \<times> string \<times> edge_data) list" where
  "has_prereq_edges g = filter (\<lambda>(u, v, d). d = HAS_PREREQ) (edges g)"

text \<open>The codes \<open>p\<close> for which \<open>Course:p\<close> is a node of the graph.\<close>

definition course_nodes :: "graph \<Rightarrow> string set" where
  "course_nodes g = {p. has_node g (''Course:'' @ p)}"

subsection \<open>Small objects for the embedding table and the collaborative filter\<close>

definition emb_example :: "string \<rightharpoonup> real list" where
  "emb_example = [''a'' \<mapsto> [2], ''b'' \<mapsto> [1]]"

definition kg_example :: kg_builder where
  "kg_example =
     \<lparr>kg_graph = empty_graph, embeddings = [''Student:s1'' \<mapsto> [1, 2], ''Course:X1'' \<mapsto> [3, 4]],
      embedding_dim = 2\<rparr>"

text \<open>
  One student, two courses, one factor: the student has interacted with \<open>I1\<close>, whose raw
  score 3 is the larger one.
\<close>

definition cf_example :: cf_model where
  "cf_example =
     \<lparr>cf_preprocessor =
        \<lparr>student_to_idx = [''s1'' \<mapsto> 0],
         course_to_idx = [''I1'' \<mapsto> 0, ''I2'' \<mapsto> 1],
         idx_to_course = [0 \<mapsto> ''I1'', 1 \<mapsto> ''I2'']\<rparr>,
      factors = 1,
      user_factors = Some [[1]],
      item_factors = Some [[3], [2]],
      interaction_matrix = Some [[1, 0]]\<rparr>"

section \<open>The history of a student\<close>

lemma max_list_Max: "gs \<noteq> [] \<Longrightarrow> max_list gs = Max (set gs)"
proof (cases gs)
  case Nil
  assume "gs \<noteq> []"
  with Nil show ?thesis by simp
next
  case (Cons a list)
  then show ?thesis using Max.set_eq_fold[of a list] by simp
qed

lemma max_list_ge_iff:
  assumes "gs \<noteq> []"
  shows "t \<le> max_list gs \<longleftrightarrow> (\<exists>g\<in>set gs. t \<le> g)"
proof -
  have "finite (set gs)" and "set gs \<noteq> {}" using assms by simp_all
  then show ?thesis unfolding max_list_Max[OF assms] by (rule Max_ge_iff)
qed

lemma history_loaded:
  assumes "courses_taken dl = Some df"
  shows "get_student_history dl sid thr =
           Inr \<lparr>student_id = sid,
                all_courses = map taken_code (filter (\<lambda>r. alumno r = sid) df),
                passed_courses =
                  map fst (filter (\<lambda>(c, g). g \<ge> thr) (groupby_max (filter (\<lambda>r. alumno r = sid) df))),
                grades = groupby_max (filter (\<lambda>r. alumno r = sid) df),
                by_cycle = fold (\<lambda>r m. by_cycle_add m r) (filter (\<lambda>r. alumno r = sid) df) []\<rparr>"
  using assms by (simp add: get_student_history_def Let_def groupby_max_def)

lemma groupby_keys:
  "c \<in> set (sort (remdups (map taken_code (filter (\<lambda>r. alumno r = sid) df)))) \<longleftrightarrow>
     attempts df sid c \<noteq> []"
  by (auto simp: attempts_def filter_empty_conv)

lemma map_of_groupby_max:
  "map_of (groupby_max (filter (\<lambda>r. alumno r = sid) df)) c =
     (if attempts df sid c = [] then None else Some (max_list (map grade (attempts df sid c))))"
proof -
  let ?sd = "filter (\<lambda>r. alumno r = sid) df"
  have "map_of (groupby_max ?sd) c =
          (if c \<in> set (sort (remdups (map taken_code ?sd)))
           then Some (max_list (map grade (filter (\<lambda>r. taken_code r = c) ?sd))) else None)"
    unfolding groupby_max_def by (simp add: map_of_map_restrict restrict_map_def)
  also have "filter (\<lambda>r. taken_code r = c) ?sd = attempts df sid c"
    by (simp add: attempts_def conj_commute)
  finally show ?thesis by (simp only: groupby_keys) simp
qed

lemma passed_groupby_max:
  "c \<in> set (map fst (filter (\<lambda>(c, g). g \<ge> thr) (groupby_max (filter (\<lambda>r. alumno r = sid) df)))) \<longleftrightarrow>
     attempts df sid c \<noteq> [] \<and> max_list (map grade (attempts df sid c)) \<ge> thr"
proof -
  let ?sd = "filter (\<lambda>r. alumno r = sid) df"
  have att: "filter (\<lambda>r. taken_code r = c) ?sd = attempts df sid c"
    by (simp add: attempts_def conj_commute)
  have "c \<in> set (map fst (filter (\<lambda>(c, g). g \<ge> thr) (groupby_max ?sd))) \<longleftrightarrow>
          c \<in> set (sort (remdups (map taken_code ?sd))) \<and>
          max_list (map grade (filter (\<lambda>r. taken_code r = c) ?sd)) \<ge> thr"
    unfolding groupby_max_def by (force simp: image_iff)
  then show ?thesis by (simp only: groupby_keys att)
qed

lemma passed_iff_record:
  "c \<in> set (map fst (filter (\<lambda>(c, g). g \<ge> thr) (groupby_max (filter (\<lambda>r. alumno r = sid) df)))) \<longleftrightarrow>
     (\<exists>r\<in>set df. alumno r = sid \<and> taken_code r = c \<and> grade r \<ge> thr)"
proof (cases "attempts df sid c = []")
  case True
  then show ?thesis
    unfolding passed_groupby_max by (auto simp: attempts_def filter_empty_conv)
next
  case False
  then have ne: "map grade (attempts df sid c) \<noteq> []" by simp
  show ?thesis
    unfolding passed_groupby_max max_list_ge_iff[OF ne] using False
    by (auto simp: attempts_def)
qed

lemma count_all_courses:
  "count_list (map taken_code (filter (\<lambda>r. alumno r = sid) df)) c = length (attempts df sid c)"
  by (induction df) (auto simp: attempts_def)

lemma passed_best_grade:
  assumes "courses_taken dl = Some df" and "get_student_history dl sid thr = Inr h"
    and "p \<in> set (passed_courses h)"
  shows "thr \<le> best_grade h p"
proof -
  from assms(2) have h: "passed_courses h =
        map fst (filter (\<lambda>(c, g). g \<ge> thr) (groupby_max (filter (\<lambda>r. alumno r = sid) df)))"
      "grades h = groupby_max (filter (\<lambda>r. alumno r = sid) df)"
    unfolding history_loaded[OF assms(1)] by auto
  from assms(3) have "attempts df sid p \<noteq> [] \<and> max_list (map grade (attempts df sid p)) \<ge> thr"
    unfolding h(1) passed_groupby_max .
  then show ?thesis
    by (simp add: best_grade_def h(2) map_of_groupby_max)
qed

text \<open>
  C6.  With the history loaded, \<open>get_student_history\<close> returns a history in which the grade
  of a course is the maximum over the student's attempts at it, a course is in
  \<open>passed_courses\<close> exactly when that maximum reaches the pass threshold, and \<open>all_courses\<close>
  lists a course once per attempt.  For the two attempts (cycle 1, grade 15) and (cycle 2,
  grade 8) at one course and threshold 10, the course is passed with grade 15 and is listed
  twice.
\<close>

theorem get_student_history_retakes:
  assumes "courses_taken dl = Some df"
  shows "(\<exists>h. get_student_history dl sid thr = Inr h \<and>
            (\<forall>c. map_of (grades h) c =
                   (if attempts df sid c = [] then None
                    else Some (Max (set (map grade (attempts df sid c))))) \<and>
                 (c \<in> set (passed_courses h) \<longleftrightarrow>
                    attempts df sid c \<noteq> [] \<and> thr \<le> Max (set (map grade (attempts df sid c)))) \<and>
                 count_list (all_courses h) c = length (attempts df sid c))) \<and>
         get_student_history
           \<lparr>courses = cs,
            courses_taken = Some [\<lparr>alumno = s, taken_code = a, cycle = 1, grade = 15\<rparr>,
                                  \<lparr>alumno = s, taken_code = a, cycle = 2, grade = 8\<rparr>]\<rparr> s 10 =
         Inr \<lparr>student_id = s, all_courses = [a, a], passed_courses = [a], grades = [(a, 15)],
              by_cycle = [(1, [(a, 15)]), (2, [(a, 8)])]\<rparr>"
proof (rule conjI)
  have m: "\<And>c. attempts df sid c \<noteq> [] \<Longrightarrow>
             max_list (map grade (attempts df sid c)) = Max (set (map grade (attempts df sid c)))"
    by (rule max_list_Max) simp
  show "\<exists>h. get_student_history dl sid thr = Inr h \<and>
            (\<forall>c. map_of (grades h) c =
                   (if attempts df sid c = [] then None
                    else Some (Max (set (map grade (attempts df sid c))))) \<and>
                 (c \<in> set (passed_courses h) \<longleftrightarrow>
                    attempts df sid c \<noteq> [] \<and> thr \<le> Max (set (map grade (attempts df sid c)))) \<and>
                 count_list (all_courses h) c = length (attempts df sid c))"
    unfolding history_loaded[OF assms]
    using m by (simp add: map_of_groupby_max passed_groupby_max count_all_courses del: set_map)
next
  show "get_student_history
           \<lparr>courses = cs,
            courses_taken = Some [\<lparr>alumno = s, taken_code = a, cycle = 1, grade = 15\<rparr>,
                                  \<lparr>alumno = s, taken_code = a, cycle = 2, grade = 8\<rparr>]\<rparr> s 10 =
         Inr \<lparr>student_id = s, all_courses = [a, a], passed_courses = [a], grades = [(a, 15)],
              by_cycle = [(1, [(a, 15)]), (2, [(a, 8)])]\<rparr>"
    by (simp add: get_student_history_def Let_def groupby_max_def by_cycle_add_def)
qed

theorem get_student_history_retakes_witness:
  "courses_taken demo_loader = Some demo_taken \<and>
   (\<exists>h. get_student_history demo_loader ''s1'' 10 = Inr h \<and>
        map_of (grades h) ''BFI01'' = Some 9 \<and> ''BFI01'' \<notin> set (passed_courses h) \<and>
        ''X1'' \<in> set (passed_courses h) \<and> count_list (all_courses h) ''BFI01'' = 2)"
proof -
  have df: "courses_taken demo_loader = Some demo_taken" by (simp add: demo_loader_def)
  have a: "attempts demo_taken ''s1'' ''BFI01'' =
             [\<lparr>alumno = ''s1'', taken_code = ''BFI01'', cycle = 1, grade = 5\<rparr>,
              \<lparr>alumno = ''s1'', taken_code = ''BFI01'', cycle = 2, grade = 9\<rparr>]"
    and b: "attempts demo_taken ''s1'' ''X1'' =
             [\<lparr>alumno = ''s1'', taken_code = ''X1'', cycle = 1, grade = 15\<rparr>]"
    by (simp_all add: attempts_def demo_taken_def)
  from get_student_history_retakes[OF df, of "''s1''" 10] obtain h where
    h: "get_student_history demo_loader ''s1'' 10 = Inr h" and
    p: "\<And>c. map_of (grades h) c =
               (if attempts demo_taken ''s1'' c = [] then None
                else Some (Max (set (map grade (attempts demo_taken ''s1'' c))))) \<and>
             (c \<in> set (passed_courses h) \<longleftrightarrow>
                attempts demo_taken ''s1'' c \<noteq> [] \<and>
                10 \<le> Max (set (map grade (attempts demo_taken ''s1'' c)))) \<and>
             count_list (all_courses h) c = length (attempts demo_taken ''s1'' c)"
    by blast
  from p[of "''BFI01''"] p[of "''X1''"] have
    "map_of (grades h) ''BFI01'' = Some 9" "''BFI01'' \<notin> set (passed_courses h)"
    "''X1'' \<in> set (passed_courses h)" "count_list (all_courses h) ''BFI01'' = 2"
    by (simp_all add: a b)
  with df h show ?thesis by blast
qed

section \<open>Prerequisites and the track weight\<close>

lemma get_course_info_loaded:
  "courses dl = Some cs \<Longrightarrow> get_course_info dl code = Inr (find (\<lambda>c. course_code c = code) cs)"
  by (simp add: get_course_info_def)

text \<open>
  C3.  With the catalog loaded, \<open>cumple_prereqs\<close> returns true for a course that is not in
  the catalog or declares no prerequisite; with the history loaded too, it returns whether
  every declared prerequisite is in the passed set of the history taken with threshold 10,
  and a course is in that set exactly when the student has a record for it with grade at
  least 10.  The function has no threshold parameter.
\<close>

theorem cumple_prereqs_spec:
  assumes "courses (rec_data_loader self) = Some cs"
  shows "((find (\<lambda>c. course_code c = code) cs = None \<or>
            (\<exists>ci. find (\<lambda>c. course_code c = code) cs = Some ci \<and> prereq_codes ci = []))
           \<longrightarrow> cumple_prereqs self sid code = Inr True) \<and>
         (\<forall>df. courses_taken (rec_data_loader self) = Some df \<longrightarrow>
            (\<exists>h. get_student_history (rec_data_loader self) sid 10 = Inr h \<and>
                 cumple_prereqs self sid code =
                   Inr (case find (\<lambda>c. course_code c = code) cs of
                          None \<Rightarrow> True
                        | Some ci \<Rightarrow> \<forall>p\<in>set (prereq_codes ci). p \<in> set (passed_courses h)) \<and>
                 (\<forall>p. p \<in> set (passed_courses h) \<longleftrightarrow>
                        (\<exists>r\<in>set df. alumno r = sid \<and> taken_code r = p \<and> grade r \<ge> 10))))"
proof (intro conjI allI impI)
  assume "find (\<lambda>c. course_code c = code) cs = None \<or>
            (\<exists>ci. find (\<lambda>c. course_code c = code) cs = Some ci \<and> prereq_codes ci = [])"
  then show "cumple_prereqs self sid code = Inr True"
    by (auto simp: cumple_prereqs_def get_course_info_loaded[OF assms])
next
  fix df
  assume df: "courses_taken (rec_data_loader self) = Some df"
  show "\<exists>h. get_student_history (rec_data_loader self) sid 10 = Inr h \<and>
                 cumple_prereqs self sid code =
                   Inr (case find (\<lambda>c. course_code c = code) cs of
                          None \<Rightarrow> True
                        | Some ci \<Rightarrow> \<forall>p\<in>set (prereq_codes ci). p \<in> set (passed_courses h)) \<and>
                 (\<forall>p. p \<in> set (passed_courses h) \<longleftrightarrow>
                        (\<exists>r\<in>set df. alumno r = sid \<and> taken_code r = p \<and> grade r \<ge> 10))"
    unfolding cumple_prereqs_def get_course_info_loaded[OF assms] history_loaded[OF df]
    by (simp add: passed_iff_record list_all_iff Let_def del: set_map split: option.splits)
qed

lemma demo_loaded:
  "courses (rec_data_loader demo_recommender) = Some demo_catalog"
  "courses_taken (rec_data_loader demo_recommender) = Some demo_taken"
  by (simp_all add: demo_recommender_def demo_loader_def)

theorem cumple_prereqs_spec_witness:
  "courses (rec_data_loader demo_recommender) = Some demo_catalog \<and>
   courses_taken (rec_data_loader demo_recommender) = Some demo_taken \<and>
   cumple_prereqs demo_recommender ''s1'' ''BFI01'' = Inr True \<and>
   cumple_prereqs demo_recommender ''s1'' ''ZZ'' = Inr True \<and>
   cumple_prereqs demo_recommender ''s1'' ''X2'' = Inr True \<and>
   cumple_prereqs demo_recommender ''s1'' ''X3'' = Inr False"
proof -
  have f: "find (\<lambda>c. course_code c = ''ZZ'') demo_catalog = None"
      "find (\<lambda>c. course_code c = ''BFI01'') demo_catalog =
         Some \<lparr>course_code = ''BFI01'', course_name = ''Fisica'', prereq_codes = [],
               lineas_carrera = []\<rparr>"
      "find (\<lambda>c. course_code c = ''X2'') demo_catalog =
         Some \<lparr>course_code = ''X2'', course_name = ''Circuitos 2'', prereq_codes = [''X1''],
               lineas_carrera = [''T1'']\<rparr>"
      "find (\<lambda>c. course_code c = ''X3'') demo_catalog =
         Some \<lparr>course_code = ''X3'', course_name = ''Circuitos 3'', prereq_codes = [''X2'', ''X9''],
               lineas_carrera = [''T1'', ''T2'']\<rparr>"
    by (simp_all add: demo_catalog_def)
  have r: "(\<exists>r\<in>set demo_taken. alumno r = ''s1'' \<and> taken_code r = ''X1'' \<and> grade r \<ge> 10)"
      "\<not> (\<exists>r\<in>set demo_taken. alumno r = ''s1'' \<and> taken_code r = ''X2'' \<and> grade r \<ge> 10)"
    by (simp_all add: demo_taken_def)
  from cumple_prereqs_spec[OF demo_loaded(1), of "''ZZ''" "''s1''"]
  have zz: "cumple_prereqs demo_recommender ''s1'' ''ZZ'' = Inr True" by (simp add: f)
  from cumple_prereqs_spec[OF demo_loaded(1), of "''BFI01''" "''s1''"]
  have bfi: "cumple_prereqs demo_recommender ''s1'' ''BFI01'' = Inr True" by (simp add: f)
  from cumple_prereqs_spec[OF demo_loaded(1), of "''X2''" "''s1''"] demo_loaded(2) r
  have x2: "cumple_prereqs demo_recommender ''s1'' ''X2'' = Inr True" by (auto simp: f)
  from cumple_prereqs_spec[OF demo_loaded(1), of "''X3''" "''s1''"] demo_loaded(2) r
  have x3: "cumple_prereqs demo_recommender ''s1'' ''X3'' = Inr False" by (auto simp: f)
  from demo_loaded zz bfi x2 x3 show ?thesis by simp
qed

lemma related_grades_loaded:
  assumes "courses dl = Some cs"
  shows "related_grades dl L h pcs =
           Inr (map (best_grade h)
                  (filter (\<lambda>p. case find (\<lambda>c. course_code c = p) cs of
                                 None \<Rightarrow> False
                               | Some pinfo \<Rightarrow> L \<inter> set (lineas_carrera pinfo) \<noteq> {}) pcs))"
  by (induction pcs) (auto simp: get_course_info_loaded[OF assms] best_grade_def split: option.splits)

lemma sum_list_ge10:
  fixes gs :: "real list"
  shows "\<forall>g\<in>set gs. 10 \<le> g \<Longrightarrow> 10 * real (length gs) \<le> sum_list gs"
  by (induction gs) (auto simp: algebra_simps)

lemma sum_list_le10_iff:
  fixes gs :: "real list"
  shows "\<forall>g\<in>set gs. 10 \<le> g \<Longrightarrow> sum_list gs \<le> 10 * real (length gs) \<longleftrightarrow> (\<forall>g\<in>set gs. g = 10)"
proof (induction gs)
  case Nil
  then show ?case by simp
next
  case (Cons g gs)
  then have g: "10 \<le> g" and rest: "\<forall>x\<in>set gs. 10 \<le> x" by simp_all
  from sum_list_ge10[OF rest] Cons.IH[OF rest] g show ?case
    by (auto simp: algebra_simps)
qed

lemma clamp_zero_iff:
  fixes gs :: "real list"
  assumes "gs \<noteq> []" and "\<forall>g\<in>set gs. 10 \<le> g"
  shows "max 0 (min 1 ((sum_list gs / real (length gs) - 10) / 10)) = 0 \<longleftrightarrow> (\<forall>g\<in>set gs. g = 10)"
proof -
  have len: "0 < real (length gs)" using assms(1) by simp
  have "max 0 (min 1 ((sum_list gs / real (length gs) - 10) / 10)) = 0 \<longleftrightarrow>
          sum_list gs / real (length gs) \<le> 10"
    by (auto simp: max_def min_def)
  also have "\<dots> \<longleftrightarrow> sum_list gs \<le> 10 * real (length gs)"
    using len by (simp add: pos_divide_le_eq)
  also have "\<dots> \<longleftrightarrow> (\<forall>g\<in>set gs. g = 10)"
    by (rule sum_list_le10_iff[OF assms(2)])
  finally show ?thesis .
qed

lemma shares_track_unknown:
  "find (\<lambda>c. course_code c = code) cs = None \<Longrightarrow> \<not> shares_track cs code p"
  by (simp add: shares_track_def)

lemma shares_track_known:
  "find (\<lambda>c. course_code c = code) cs = Some ci \<Longrightarrow>
     shares_track cs code p =
       (case find (\<lambda>c. course_code c = p) cs of
          None \<Rightarrow> False
        | Some pinfo \<Rightarrow> set (lineas_carrera ci) \<inter> set (lineas_carrera pinfo) \<noteq> {})"
  by (simp add: shares_track_def split: option.splits)

lemma calcular_loaded:
  assumes cs: "courses (rec_data_loader self) = Some cs"
    and h: "get_student_history (rec_data_loader self) sid 10 = Inr h"
  shows "calcular_peso_lineas self sid code =
           Inr (let gs = map (best_grade h) (filter (shares_track cs code) (passed_courses h))
                in if gs = [] then 0
                   else max 0 (min 1 ((sum_list gs / real (length gs) - 10) / 10)))"
proof (cases "find (\<lambda>c. course_code c = code) cs")
  case None
  then show ?thesis
    by (simp add: calcular_peso_lineas_def get_course_info_loaded[OF cs] shares_track_unknown)
next
  case (Some ci)
  show ?thesis
  proof (cases "lineas_carrera ci = []")
    case True
    then have "\<And>p. \<not> shares_track cs code p"
      by (simp add: shares_track_known[OF Some] split: option.splits)
    then show ?thesis using True Some
      by (simp add: calcular_peso_lineas_def get_course_info_loaded[OF cs])
  next
    case False
    have "(\<lambda>p. case find (\<lambda>c. course_code c = p) cs of
                 None \<Rightarrow> False
               | Some pinfo \<Rightarrow> set (lineas_carrera ci) \<inter> set (lineas_carrera pinfo) \<noteq> {}) =
          shares_track cs code"
      by (rule ext) (simp add: shares_track_known[OF Some])
    then show ?thesis using False Some
      by (simp add: calcular_peso_lineas_def get_course_info_loaded[OF cs] h
            related_grades_loaded[OF cs] Let_def)
  qed
qed

text \<open>
  C4 (as amended).  With catalog and history loaded, \<open>calcular_peso_lineas\<close> returns a
  weight in [0, 1]: 0 when no passed course shares a track with the target, and otherwise
  the average best grade of the passed courses that do, mapped linearly from [10, 20] to
  [0, 1] and clamped.  The weight is 0 exactly when every passed course that shares a track
  with the target has best grade 10, which includes the case that there is none.
\<close>

theorem calcular_peso_lineas_range:
  assumes cs: "courses (rec_data_loader self) = Some cs"
    and df: "courses_taken (rec_data_loader self) = Some df"
  shows "\<exists>h w. get_student_history (rec_data_loader self) sid 10 = Inr h \<and>
           calcular_peso_lineas self sid code = Inr w \<and> 0 \<le> w \<and> w \<le> 1 \<and>
           w = (let gs = map (best_grade h) (filter (shares_track cs code) (passed_courses h))
                in if gs = [] then 0
                   else max 0 (min 1 ((sum_list gs / real (length gs) - 10) / 10))) \<and>
           ((\<forall>p\<in>set (passed_courses h). \<not> shares_track cs code p) \<longrightarrow> w = 0) \<and>
           (w = 0 \<longleftrightarrow>
              (\<forall>p\<in>set (passed_courses h). shares_track cs code p \<longrightarrow> best_grade h p = 10))"
proof -
  obtain h where h: "get_student_history (rec_data_loader self) sid 10 = Inr h"
    using history_loaded[OF df] by blast
  define gs where "gs = map (best_grade h) (filter (shares_track cs code) (passed_courses h))"
  define w where "w = (if gs = [] then 0
                       else max 0 (min 1 ((sum_list gs / real (length gs) - 10) / 10)))"
  have res: "calcular_peso_lineas self sid code = Inr w"
    unfolding calcular_loaded[OF cs h] w_def gs_def by (simp add: Let_def)
  have range: "0 \<le> w" "w \<le> 1" by (simp_all add: w_def)
  have ge: "\<forall>g\<in>set gs. 10 \<le> g"
    using passed_best_grade[OF df h] by (auto simp: gs_def)
  have empty: "gs = [] \<longleftrightarrow> (\<forall>p\<in>set (passed_courses h). \<not> shares_track cs code p)"
    by (auto simp: gs_def filter_empty_conv)
  have all10: "(\<forall>g\<in>set gs. g = 10) \<longleftrightarrow>
                 (\<forall>p\<in>set (passed_courses h). shares_track cs code p \<longrightarrow> best_grade h p = 10)"
    by (auto simp: gs_def)
  have zero: "w = 0 \<longleftrightarrow> (\<forall>g\<in>set gs. g = 10)"
  proof (cases "gs = []")
    case True
    then show ?thesis by (simp add: w_def)
  next
    case False
    then show ?thesis using clamp_zero_iff[OF False ge] by (simp add: w_def)
  qed
  have none: "(\<forall>p\<in>set (passed_courses h). \<not> shares_track cs code p) \<longrightarrow> w = 0"
    using empty by (simp add: w_def)
  have formula: "w = (let gs = map (best_grade h) (filter (shares_track cs code) (passed_courses h))
                in if gs = [] then 0
                   else max 0 (min 1 ((sum_list gs / real (length gs) - 10) / 10)))"
    by (simp add: w_def gs_def Let_def)
  from h res range formula none zero all10 show ?thesis by blast
qed

lemma demo_peso_BIC01: "calcular_peso_lineas demo_recommender ''s1'' ''BIC01'' = Inr (1 / 2)"
  by code_simp

theorem calcular_peso_lineas_range_witness:
  "courses (rec_data_loader demo_recommender) = Some demo_catalog \<and>
   courses_taken (rec_data_loader demo_recommender) = Some demo_taken \<and>
   calcular_peso_lineas demo_recommender ''s1'' ''BIC01'' = Inr (1 / 2) \<and>
   (\<exists>h. get_student_history (rec_data_loader demo_recommender) ''s1'' 10 = Inr h \<and>
        ((1 / 2 :: real) = 0 \<longleftrightarrow>
           (\<forall>p\<in>set (passed_courses h).
              shares_track demo_catalog ''BIC01'' p \<longrightarrow> best_grade h p = 10)))"
  using calcular_peso_lineas_range[OF demo_loaded, of "''s1''" "''BIC01''"] demo_loaded
    demo_peso_BIC01
  by auto

text \<open>
  The claim as stated fails: a student whose only passed course that shares a track with
  the target has best grade 10 gets weight 0.
\<close>

theorem calcular_peso_lineas_counterexample:
  "get_student_history (rec_data_loader peso_recommender) ''s1'' 10 =
     Inr \<lparr>student_id = ''s1'', all_courses = [''X''], passed_courses = [''X''],
          grades = [(''X'', 10)], by_cycle = [(1, [(''X'', 10)])]\<rparr> \<and>
   shares_track
     [\<lparr>course_code = ''X'', course_name = ''Redes'', prereq_codes = [],
       lineas_carrera = [''T'']\<rparr>,
      \<lparr>course_code = ''Y'', course_name = ''Redes 2'', prereq_codes = [''X''],
       lineas_carrera = [''T'']\<rparr>] ''Y'' ''X'' \<and>
   calcular_peso_lineas peso_recommender ''s1'' ''Y'' = Inr 0"
  by (simp add: peso_recommender_def peso_loader_def get_student_history_def groupby_max_def
      by_cycle_add_def Let_def shares_track_def calcular_peso_lineas_def get_course_info_def)

section \<open>The ranked list\<close>

lemma score_candidates_items:
  assumes "score_candidates self sid F N cs = Inr items" and "it \<in> set items"
  shows "item_course_code it \<in> set cs \<and>
         cumple_prereqs self sid (item_course_code it) = Inr True \<and>
         (\<exists>w. calcular_peso_lineas self sid (item_course_code it) = Inr w \<and>
              item_score it =
                hybrid_predict_score self sid (item_course_code it) + w * 0.5 +
                (if item_course_code it \<in> F then 2 else if item_course_code it \<in> N then 1 else 0)) \<and>
         item_priority it =
           (if item_course_code it \<in> F then 1 else if item_course_code it \<in> N then 2 else 3)"
  using assms
proof (induction cs arbitrary: items)
  case Nil
  then show ?case by simp
next
  case (Cons c cs)
  show ?case
  proof (cases "cumple_prereqs self sid c")
    case (Inl e)
    with Cons.prems show ?thesis by simp
  next
    case (Inr met)
    show ?thesis
    proof (cases met)
      case False
      with Inr Cons.prems have "score_candidates self sid F N cs = Inr items" by simp
      from Cons.IH[OF this Cons.prems(2)] show ?thesis by auto
    next
      case True
      with Inr Cons.prems obtain w rest where
        w: "calcular_peso_lineas self sid c = Inr w" and
        rest: "score_candidates self sid F N cs = Inr rest" and
        items: "items =
          \<lparr>item_course_code = c,
            item_score = fst (if c \<in> F then (hybrid_predict_score self sid c + w * 0.5 + 2, 1::nat)
                              else if c \<in> N then (hybrid_predict_score self sid c + w * 0.5 + 1, 2)
                              else (hybrid_predict_score self sid c + w * 0.5, 3)),
            item_priority = snd (if c \<in> F then (hybrid_predict_score self sid c + w * 0.5 + 2, 1::nat)
                              else if c \<in> N then (hybrid_predict_score self sid c + w * 0.5 + 1, 2)
                              else (hybrid_predict_score self sid c + w * 0.5, 3)),
            item_is_failed = (c \<in> F), item_is_obligatory = (c \<in> OBLIGATORY_COURSES),
            item_lineas_weight = w\<rparr> # rest"
        by (auto simp: Let_def split: sum.splits)
      show ?thesis
      proof (cases "it \<in> set rest")
        case True
        from Cons.IH[OF rest True] show ?thesis by auto
      next
        case False
        with Cons.prems(2) items have "it = hd items" by auto
        then show ?thesis using items w Inr True by auto
      qed
    qed
  qed
qed

lemma attach_explanations_keys:
  assumes "attach_explanations self sid items = Inr rs"
  shows "map (\<lambda>r. (rec_priority r, - rec_score r)) rs =
         map (\<lambda>x. (item_priority x, - item_score x)) items"
  using assms
proof (induction items arbitrary: rs)
  case Nil
  then show ?case by simp
next
  case (Cons item items)
  then show ?case
    by (auto simp: Let_def split: sum.splits)
qed

lemma attach_explanations_member:
  assumes "attach_explanations self sid items = Inr rs" and "r \<in> set rs"
  shows "\<exists>it\<in>set items. rec_course_code r = item_course_code it \<and>
           rec_score r = item_score it \<and> rec_priority r = item_priority it"
  using assms
proof (induction items arbitrary: rs)
  case Nil
  then show ?case by simp
next
  case (Cons item items)
  then show ?case
    by (fastforce simp: Let_def split: sum.splits)
qed

lemma set_py_prefix: "set (py_prefix xs k) \<subseteq> set xs"
  by (auto simp: py_prefix_def dest: in_set_takeD)

lemma sorted_py_prefix: "sorted (map f xs) \<Longrightarrow> sorted (map f (py_prefix xs k))"
  by (simp add: py_prefix_def take_map[symmetric] sorted_wrt_take del: take_map)

lemma recomendar_cursos_cases:
  assumes "recomendar_cursos ord self sid top_k = Inr rs"
  obtains h catalog scores where
    "get_student_history (rec_data_loader self) sid 10 = Inr h"
    "get_all_courses (rec_data_loader self) = Inr catalog"
    "score_candidates self sid ((set (all_courses h) - set (passed_courses h)) \<inter> OBLIGATORY_COURSES)
       (OBLIGATORY_COURSES - set (all_courses h))
       (ord ((set (all_courses h) - set (passed_courses h)) \<inter> OBLIGATORY_COURSES) @
        ord (OBLIGATORY_COURSES - set (all_courses h)) @
        ord (set catalog - set (passed_courses h) - OBLIGATORY_COURSES)) = Inr scores"
    "attach_explanations self sid
       (py_prefix (sort_key (\<lambda>x. (item_priority x, - item_score x)) scores) top_k) = Inr rs"
proof -
  from assms obtain h where h: "get_student_history (rec_data_loader self) sid 10 = Inr h"
    by (auto simp: recomendar_cursos_def split: sum.splits)
  from assms h obtain catalog where c: "get_all_courses (rec_data_loader self) = Inr catalog"
    by (auto simp: recomendar_cursos_def split: sum.splits)
  let ?F = "(set (all_courses h) - set (passed_courses h)) \<inter> OBLIGATORY_COURSES"
  let ?N = "OBLIGATORY_COURSES - set (all_courses h)"
  let ?cands = "ord ?F @ ord ?N @ ord (set catalog - set (passed_courses h) - OBLIGATORY_COURSES)"
  show thesis
  proof (cases "?cands = []")
    case True
    with assms h c have "rs = []" by (simp add: recomendar_cursos_def Let_def)
    moreover have "score_candidates self sid ?F ?N ?cands = Inr []" using True by simp
    ultimately show ?thesis using that[OF h c, of "[]"] by (simp add: py_prefix_def)
  next
    case False
    with assms h c obtain scores where
      s: "score_candidates self sid ?F ?N ?cands = Inr scores" and
      a: "attach_explanations self sid
            (py_prefix (sort_key (\<lambda>x. (item_priority x, - item_score x)) scores) top_k) = Inr rs"
      by (auto simp: recomendar_cursos_def Let_def split: sum.splits if_splits)
    then show ?thesis using that[OF h c] by blast
  qed
qed

lemma demo_built: "build_graph sorted_list_of_set demo_loader 11 empty_graph = Inr demo_graph"
  by code_simp

lemma demo_eval:
  "recomendar_cursos sorted_list_of_set demo_recommender ''s1'' 3 = Inr demo_result"
  by code_simp

text \<open>
  C1.  In the list \<open>recomendar_cursos\<close> returns, an earlier recommendation has a smaller
  priority than a later one, or the same priority and a score at least as large.
\<close>

theorem recomendar_cursos_sorted:
  assumes "recomendar_cursos ord self sid top_k = Inr rs" and "i < j" and "j < length rs"
  shows "rec_priority (rs ! i) < rec_priority (rs ! j) \<or>
         (rec_priority (rs ! i) = rec_priority (rs ! j) \<and> rec_score (rs ! i) \<ge> rec_score (rs ! j))"
proof -
  from assms(1) obtain h catalog scores where
    a: "attach_explanations self sid
          (py_prefix (sort_key (\<lambda>x. (item_priority x, - item_score x)) scores) top_k) = Inr rs"
    by (rule recomendar_cursos_cases)
  let ?items = "py_prefix (sort_key (\<lambda>x. (item_priority x, - item_score x)) scores) top_k"
  have "map (\<lambda>r. (rec_priority r, - rec_score r)) rs =
        map (\<lambda>x. (item_priority x, - item_score x)) ?items"
    by (rule attach_explanations_keys[OF a])
  moreover have "sorted (map (\<lambda>x. (item_priority x, - item_score x)) ?items)"
    by (rule sorted_py_prefix) (rule sorted_sort_key)
  ultimately have "sorted (map (\<lambda>r. (rec_priority r, - rec_score r)) rs)" by simp
  then have "(rec_priority (rs ! i), - rec_score (rs ! i)) \<le> (rec_priority (rs ! j), - rec_score (rs ! j))"
    using assms(2,3) by (simp add: sorted_iff_nth_mono)
  then show ?thesis by (auto simp: less_eq_prod_def)
qed

theorem recomendar_cursos_sorted_witness:
  "recomendar_cursos sorted_list_of_set demo_recommender ''s1'' 3 = Inr demo_result \<and>
   length demo_result = 3 \<and>
   rec_priority (demo_result ! 0) = rec_priority (demo_result ! 1) \<and>
   rec_score (demo_result ! 0) \<ge> rec_score (demo_result ! 1) \<and>
   rec_priority (demo_result ! 1) < rec_priority (demo_result ! 2)"
  using recomendar_cursos_sorted[OF demo_eval, of 0 1] recomendar_cursos_sorted[OF demo_eval, of 1 2]
    demo_eval
  by (simp add: demo_result_def)

text \<open>
  C2.  Every returned recommendation is for a course whose prerequisites are met; its
  priority is 1 for an obligatory course the student took and did not pass, 2 for an
  obligatory course the student never took, and 3 otherwise; and its score is the fusion
  score plus half the track weight, plus 2 for priority 1, plus 1 for priority 2.
\<close>

theorem recomendar_cursos_score:
  assumes "recomendar_cursos ord self sid top_k = Inr rs" and "r \<in> set rs"
  shows "\<exists>h w. get_student_history (rec_data_loader self) sid 10 = Inr h \<and>
           cumple_prereqs self sid (rec_course_code r) = Inr True \<and>
           calcular_peso_lineas self sid (rec_course_code r) = Inr w \<and>
           rec_priority r =
             (if rec_course_code r \<in> (set (all_courses h) - set (passed_courses h)) \<inter> OBLIGATORY_COURSES
              then 1
              else if rec_course_code r \<in> OBLIGATORY_COURSES - set (all_courses h) then 2 else 3) \<and>
           rec_score r =
             hybrid_predict_score self sid (rec_course_code r) + 0.5 * w +
             (if rec_priority r = 1 then 2 else if rec_priority r = 2 then 1 else 0)"
proof -
  from assms(1) obtain h catalog scores where
    h: "get_student_history (rec_data_loader self) sid 10 = Inr h" and
    s: "score_candidates self sid ((set (all_courses h) - set (passed_courses h)) \<inter> OBLIGATORY_COURSES)
       (OBLIGATORY_COURSES - set (all_courses h))
       (ord ((set (all_courses h) - set (passed_courses h)) \<inter> OBLIGATORY_COURSES) @
        ord (OBLIGATORY_COURSES - set (all_courses h)) @
        ord (set catalog - set (passed_courses h) - OBLIGATORY_COURSES)) = Inr scores" and
    a: "attach_explanations self sid
          (py_prefix (sort_key (\<lambda>x. (item_priority x, - item_score x)) scores) top_k) = Inr rs"
    by (rule recomendar_cursos_cases)
  let ?items = "py_prefix (sort_key (\<lambda>x. (item_priority x, - item_score x)) scores) top_k"
  from attach_explanations_member[OF a assms(2)] obtain it where
    it: "it \<in> set ?items" and
    eq: "rec_course_code r = item_course_code it" "rec_score r = item_score it"
        "rec_priority r = item_priority it"
    by blast
  from it set_py_prefix[of "sort_key (\<lambda>x. (item_priority x, - item_score x)) scores" top_k]
  have "it \<in> set scores" by auto
  from score_candidates_items[OF s this] h eq show ?thesis
    by (auto simp: algebra_simps)
qed

lemma demo_peso_BAE01: "calcular_peso_lineas demo_recommender ''s1'' ''BAE01'' = Inr (1 / 2)"
  by code_simp

theorem recomendar_cursos_score_witness:
  "recomendar_cursos sorted_list_of_set demo_recommender ''s1'' 3 = Inr demo_result \<and>
   demo_result ! 1 \<in> set demo_result \<and>
   rec_course_code (demo_result ! 1) = ''BAE01'' \<and>
   rec_priority (demo_result ! 1) = 1 \<and>
   cumple_prereqs demo_recommender ''s1'' ''BAE01'' = Inr True \<and>
   calcular_peso_lineas demo_recommender ''s1'' ''BAE01'' = Inr (1 / 2) \<and>
   rec_score (demo_result ! 1) = 0.3 + 0.5 * (1 / 2) + 2"
proof -
  have m: "demo_result ! 1 \<in> set demo_result" by (simp add: demo_result_def)
  have c: "rec_course_code (demo_result ! 1) = ''BAE01''" "rec_priority (demo_result ! 1) = 1"
    by (simp_all add: demo_result_def)
  have hy: "hybrid_predict_score demo_recommender ''s1'' ''BAE01'' = 0.3"
    by (simp add: demo_recommender_def)
  from recomendar_cursos_score[OF demo_eval m] obtain w where
    "cumple_prereqs demo_recommender ''s1'' ''BAE01'' = Inr True"
    "calcular_peso_lineas demo_recommender ''s1'' ''BAE01'' = Inr w"
    "rec_score (demo_result ! 1) = 0.3 + 0.5 * w + 2"
    unfolding c hy by auto
  with demo_peso_BAE01 demo_eval m c show ?thesis by simp
qed

section \<open>A recommendation outside the catalog\<close>

lemma set_order_set: "set_order ord \<Longrightarrow> finite S \<Longrightarrow> set (ord S) = S"
  by (simp add: set_order_def)

lemma set_order_empty: "set_order ord \<Longrightarrow> ord {} = []"
  using set_order_set[of ord "{}"] by simp

lemma set_order_singleton:
  assumes "set_order ord"
  shows "ord {x} = [x]"
proof -
  have s: "set (ord {x}) = {x}" and d: "distinct (ord {x})"
    using assms by (simp_all add: set_order_def)
  from d have "length (ord {x}) = card (set (ord {x}))" by (simp add: distinct_card)
  with s have "length (ord {x}) = 1" by simp
  then obtain y where "ord {x} = [y]" by (cases "ord {x}") auto
  with s show ?thesis by simp
qed

lemma take1_sort_key_unique_min:
  assumes "x \<in> set xs" and "\<forall>y\<in>set xs. y \<noteq> x \<longrightarrow> f x < f y"
  shows "take 1 (sort_key f xs) = [x]"
proof -
  have xin: "x \<in> set (sort_key f xs)" using assms(1) by simp
  then obtain z zs where s: "sort_key f xs = z # zs" by (cases "sort_key f xs") auto
  have "sorted (map f (sort_key f xs))" by (rule sorted_sort_key)
  then have le: "\<forall>y\<in>set zs. f z \<le> f y" using s by simp
  have zin: "z \<in> set xs"
  proof -
    have "z \<in> set (sort_key f xs)" using s by simp
    then show ?thesis by simp
  qed
  have "z = x"
  proof (rule ccontr)
    assume neq: "z \<noteq> x"
    then have "f x < f z" using assms(2) zin by blast
    moreover from xin s neq have "x \<in> set zs" by auto
    then have "f z \<le> f x" using le by blast
    ultimately show False by simp
  qed
  then show ?thesis using s by simp
qed

lemma score_candidates_all:
  assumes "\<forall>c\<in>set cs. cumple_prereqs self sid c = Inr True \<and>
                        calcular_peso_lineas self sid c = Inr (w c)"
  shows "score_candidates self sid F N cs =
           Inr (map (\<lambda>c. \<lparr>item_course_code = c,
                            item_score = hybrid_predict_score self sid c + w c * 0.5 +
                              (if c \<in> F then 2 else if c \<in> N then 1 else 0),
                            item_priority = (if c \<in> F then 1 else if c \<in> N then 2 else 3),
                            item_is_failed = (c \<in> F),
                            item_is_obligatory = (c \<in> OBLIGATORY_COURSES),
                            item_lineas_weight = w c\<rparr>) cs)"
  using assms by (induction cs) (simp_all add: Let_def)

lemma build_graph_ord:
  assumes "courses dl = Some cs"
    and "ord (set (concat (map lineas_carrera cs))) = ord' (set (concat (map lineas_carrera cs)))"
  shows "build_graph ord dl t g = build_graph ord' dl t g"
  by (simp only: build_graph_def assms option.case Let_def)

lemma c10_history:
  "get_student_history c10_loader ''s1'' 10 =
     Inr \<lparr>student_id = ''s1'', all_courses = [''X1''], passed_courses = [''X1''],
          grades = [(''X1'', 14)], by_cycle = [(1, [(''X1'', 14)])]\<rparr>"
  by (simp add: c10_loader_def get_student_history_def groupby_max_def by_cycle_add_def Let_def)

lemma obligatory_not_catalog: "c \<in> OBLIGATORY_COURSES \<Longrightarrow> c \<noteq> ''X1'' \<and> c \<noteq> ''X2''"
  by (auto simp: OBLIGATORY_COURSES_def)

lemma finite_OBLIGATORY: "finite OBLIGATORY_COURSES"
  by (simp add: OBLIGATORY_COURSES_def)

lemma BAE01_obligatory: "''BAE01'' \<in> OBLIGATORY_COURSES"
  by (simp add: OBLIGATORY_COURSES_def)

lemma c10_info_obligatory:
  "c \<in> OBLIGATORY_COURSES \<Longrightarrow> get_course_info c10_loader c = Inr None"
  using obligatory_not_catalog[of c] by (auto simp: get_course_info_def c10_loader_def)

lemma c10_info_X1:
  "get_course_info c10_loader ''X1'' =
     Inr (Some \<lparr>course_code = ''X1'', course_name = ''Circuitos'', prereq_codes = [],
                lineas_carrera = [''T1'']\<rparr>)"
  by (simp add: get_course_info_def c10_loader_def)

lemma c10_info_X2:
  "get_course_info c10_loader ''X2'' =
     Inr (Some \<lparr>course_code = ''X2'', course_name = ''Circuitos 2'', prereq_codes = [''X1''],
                lineas_carrera = [''T1'']\<rparr>)"
  by (simp add: get_course_info_def c10_loader_def)

lemma c10_obligatory:
  assumes "c \<in> OBLIGATORY_COURSES"
  shows "cumple_prereqs (c10_recommender g) ''s1'' c = Inr True"
    and "calcular_peso_lineas (c10_recommender g) ''s1'' c = Inr 0"
  using c10_info_obligatory[OF assms]
  by (simp_all add: cumple_prereqs_def calcular_peso_lineas_def c10_recommender_def)

lemma c10_X2:
  "cumple_prereqs (c10_recommender g) ''s1'' ''X2'' = Inr True"
  "calcular_peso_lineas (c10_recommender g) ''s1'' ''X2'' = Inr (2 / 5)"
  by (simp_all add: cumple_prereqs_def calcular_peso_lineas_def c10_recommender_def c10_history
        c10_info_X1 c10_info_X2 Let_def)

lemma c10_built_sorted:
  "build_graph sorted_list_of_set c10_loader 11 empty_graph = Inr c10_graph"
  by code_simp

lemma c10_built:
  assumes "set_order ord"
  shows "build_graph ord c10_loader 11 empty_graph = Inr c10_graph"
proof -
  have cs: "courses c10_loader = Some
        [\<lparr>course_code = ''X1'', course_name = ''Circuitos'', prereq_codes = [],
          lineas_carrera = [''T1'']\<rparr>,
         \<lparr>course_code = ''X2'', course_name = ''Circuitos 2'', prereq_codes = [''X1''],
          lineas_carrera = [''T1'']\<rparr>]"
    by (simp add: c10_loader_def)
  have "build_graph ord c10_loader 11 empty_graph =
        build_graph sorted_list_of_set c10_loader 11 empty_graph"
    by (rule build_graph_ord[OF cs]) (simp add: set_order_singleton[OF assms])
  then show ?thesis by (simp only: c10_built_sorted)
qed

lemma c10_attach:
  "attach_explanations (c10_recommender c10_graph) ''s1''
     [\<lparr>item_course_code = ''BAE01'', item_score = 19 / 10, item_priority = 2,
       item_is_failed = False, item_is_obligatory = True, item_lineas_weight = 0\<rparr>] =
   Inr c10_result"
  by code_simp

lemma c10_attach_no_node:
  "attach_explanations (c10_recommender empty_graph) ''s1''
     [\<lparr>item_course_code = ''BAE01'', item_score = 19 / 10, item_priority = 2,
       item_is_failed = False, item_is_obligatory = True, item_lineas_weight = 0\<rparr>] =
   Inl NetworkXError"
  by code_simp

lemma c10_sets:
  "(set [''X1''] - set [''X1'']) \<inter> OBLIGATORY_COURSES = {}"
  "OBLIGATORY_COURSES - set [''X1''] = OBLIGATORY_COURSES"
  "set [''X1'', ''X2''] - set [''X1''] - OBLIGATORY_COURSES = {''X2''}"
  using obligatory_not_catalog by auto

lemma c10_recomendar:
  assumes "set_order ord"
  shows "recomendar_cursos ord (c10_recommender g) ''s1'' 1 =
           attach_explanations (c10_recommender g) ''s1''
             [\<lparr>item_course_code = ''BAE01'', item_score = 19 / 10, item_priority = 2,
               item_is_failed = False, item_is_obligatory = True, item_lineas_weight = 0\<rparr>]"
proof -
  define cands where "cands = ord OBLIGATORY_COURSES @ [''X2'']"
  define w :: "string \<Rightarrow> real" where "w = (\<lambda>c. if c = ''X2'' then 2 / 5 else 0)"
  define mk where "mk = (\<lambda>c. \<lparr>item_course_code = c,
                            item_score = hybrid_predict_score (c10_recommender g) ''s1'' c + w c * 0.5 +
                              (if c \<in> {} then 2 else if c \<in> OBLIGATORY_COURSES then 1 else 0),
                            item_priority = (if c \<in> {} then 1 else if c \<in> OBLIGATORY_COURSES then 2 else 3),
                            item_is_failed = (c \<in> {}),
                            item_is_obligatory = (c \<in> OBLIGATORY_COURSES),
                            item_lineas_weight = w c\<rparr>)"
  have set_cands: "set cands = OBLIGATORY_COURSES \<union> {''X2''}"
    by (simp add: cands_def set_order_set[OF assms finite_OBLIGATORY])
  have ne: "cands \<noteq> []" by (simp add: cands_def)
  have "\<forall>c\<in>set cands. cumple_prereqs (c10_recommender g) ''s1'' c = Inr True \<and>
                        calcular_peso_lineas (c10_recommender g) ''s1'' c = Inr (w c)"
    unfolding set_cands using obligatory_not_catalog
    by (auto simp: c10_obligatory c10_X2 w_def)
  then have scores: "score_candidates (c10_recommender g) ''s1'' {} OBLIGATORY_COURSES cands =
                       Inr (map mk cands)"
    unfolding mk_def by (rule score_candidates_all)
  have mk_BAE01: "mk ''BAE01'' =
       \<lparr>item_course_code = ''BAE01'', item_score = 19 / 10, item_priority = 2,
        item_is_failed = False, item_is_obligatory = True, item_lineas_weight = 0\<rparr>"
    by (simp add: mk_def w_def BAE01_obligatory c10_recommender_def)
  have key: "\<forall>y\<in>set (map mk cands). y \<noteq> mk ''BAE01'' \<longrightarrow>
               (item_priority (mk ''BAE01''), - item_score (mk ''BAE01'')) <
               (item_priority y, - item_score y)"
  proof (intro ballI impI)
    fix y assume "y \<in> set (map mk cands)" and neq: "y \<noteq> mk ''BAE01''"
    then obtain c where c: "c \<in> OBLIGATORY_COURSES \<union> {''X2''}" and y: "y = mk c"
      using set_cands by auto
    from neq y have cne: "c \<noteq> ''BAE01''" by auto
    show "(item_priority (mk ''BAE01''), - item_score (mk ''BAE01'')) <
               (item_priority y, - item_score y)"
      using c cne obligatory_not_catalog[of c] unfolding y mk_BAE01
      by (auto simp: mk_def w_def c10_recommender_def less_prod_def)
  qed
  have "mk ''BAE01'' \<in> set (map mk cands)"
    using set_cands BAE01_obligatory by auto
  from take1_sort_key_unique_min[OF this key]
  have top: "py_prefix (sort_key (\<lambda>x. (item_priority x, - item_score x)) (map mk cands)) 1 =
               [mk ''BAE01'']"
    by (simp add: py_prefix_def)
  have cat: "get_all_courses c10_loader = Inr [''X1'', ''X2'']"
    by (simp add: get_all_courses_def c10_loader_def)
  have dl: "rec_data_loader (c10_recommender g) = c10_loader"
    by (simp add: c10_recommender_def)
  have cands_eq:
    "ord {} @ ord OBLIGATORY_COURSES @ ord {''X2''} = cands"
    by (simp only: set_order_empty[OF assms] set_order_singleton[OF assms]
          cands_def append_Nil)
  have "recomendar_cursos ord (c10_recommender g) ''s1'' 1 =
          attach_explanations (c10_recommender g) ''s1'' [mk ''BAE01'']"
    unfolding recomendar_cursos_def dl c10_history cat
    by (simp only: sum.case Let_def history.simps cands_eq c10_sets ne if_False scores top)
  then show ?thesis by (simp only: mk_BAE01)
qed

text \<open>
  The same call with a builder whose graph does not have the node \<open>Course:BAE01\<close> raises:
  \<open>get_course_neighbors\<close> asks the graph for the neighbours of a node it does not have.
\<close>

lemma recomendar_cursos_raises_without_node:
  assumes "set_order ord"
  shows "recomendar_cursos ord (c10_recommender empty_graph) ''s1'' 1 = Inl NetworkXError"
  by (simp only: c10_recomendar[OF assms] c10_attach_no_node)

lemma attach_explanations_catalog:
  assumes "attach_explanations self sid items = Inr rs" and "r \<in> set rs"
  shows "\<exists>info. get_course_info (rec_data_loader self) (rec_course_code r) = Inr info \<and>
           rec_course_name r = (case info of Some ci \<Rightarrow> course_name ci | None \<Rightarrow> []) \<and>
           rec_lineas_carrera r = (case info of Some ci \<Rightarrow> lineas_carrera ci | None \<Rightarrow> [])"
  using assms
proof (induction items arbitrary: rs)
  case Nil
  then show ?case by simp
next
  case (Cons item items)
  then show ?case
    by (fastforce simp: Let_def split: sum.splits)
qed

lemma recomendar_cursos_unknown_course:
  assumes cs: "courses (rec_data_loader self) = Some cs"
    and h: "get_student_history (rec_data_loader self) sid 10 = Inr h"
    and rs: "recomendar_cursos ord self sid top_k = Inr rs" and r: "r \<in> set rs"
    and ob: "rec_course_code r \<in> OBLIGATORY_COURSES"
    and nt: "rec_course_code r \<notin> set (all_courses h)"
    and nc: "rec_course_code r \<notin> course_code ` set cs"
  shows "rec_priority r = 2 \<and> rec_course_name r = [] \<and> rec_lineas_carrera r = [] \<and>
         cumple_prereqs self sid (rec_course_code r) = Inr True"
proof -
  from rs obtain h' catalog scores where
    h': "get_student_history (rec_data_loader self) sid 10 = Inr h'" and
    s: "score_candidates self sid ((set (all_courses h') - set (passed_courses h')) \<inter> OBLIGATORY_COURSES)
       (OBLIGATORY_COURSES - set (all_courses h'))
       (ord ((set (all_courses h') - set (passed_courses h')) \<inter> OBLIGATORY_COURSES) @
        ord (OBLIGATORY_COURSES - set (all_courses h')) @
        ord (set catalog - set (passed_courses h') - OBLIGATORY_COURSES)) = Inr scores" and
    a: "attach_explanations self sid
          (py_prefix (sort_key (\<lambda>x. (item_priority x, - item_score x)) scores) top_k) = Inr rs"
    by (rule recomendar_cursos_cases)
  from h h' have hh: "h' = h" by simp
  from attach_explanations_member[OF a r] obtain it where
    it: "it \<in> set (py_prefix (sort_key (\<lambda>x. (item_priority x, - item_score x)) scores) top_k)" and
    eq: "rec_course_code r = item_course_code it" "rec_priority r = item_priority it"
    by blast
  from it set_py_prefix[of "sort_key (\<lambda>x. (item_priority x, - item_score x)) scores" top_k]
  have "it \<in> set scores" by auto
  from score_candidates_items[OF s this] eq ob nt hh
  have p: "rec_priority r = 2" and m: "cumple_prereqs self sid (rec_course_code r) = Inr True"
    by auto
  have none: "find (\<lambda>c. course_code c = rec_course_code r) cs = None"
    using nc by (force simp: find_None_iff image_iff)
  from attach_explanations_catalog[OF a r] have
    "rec_course_name r = [] \<and> rec_lineas_carrera r = []"
    by (auto simp: get_course_info_loaded[OF cs] none)
  with p m show ?thesis by simp
qed

text \<open>
  C10.  For the catalog \<open>[X1, X2]\<close> and the history in which \<open>s1\<close> passed \<open>X1\<close> and another
  student took \<open>BAE01\<close>, whatever order the sets are iterated in: the graph built from
  these data is \<open>c10_graph\<close>, the obligatory code \<open>BAE01\<close> is not in the catalog, it passes
  the prerequisite check, and \<open>recomendar_cursos\<close> for \<open>s1\<close> with \<open>top_k = 1\<close> returns it
  with priority 2, an empty name and an empty track list.  In general, every returned
  recommendation for an obligatory code that the student never took and the catalog does
  not list has priority 2, an empty name, an empty track list and a passed prerequisite
  check.
\<close>

theorem recomendar_cursos_outside_catalog:
  assumes "set_order ord"
  shows "build_graph ord c10_loader 11 empty_graph = Inr c10_graph \<and>
         get_all_courses (rec_data_loader (c10_recommender c10_graph)) = Inr [''X1'', ''X2''] \<and>
         ''BAE01'' \<in> OBLIGATORY_COURSES \<and>
         cumple_prereqs (c10_recommender c10_graph) ''s1'' ''BAE01'' = Inr True \<and>
         recomendar_cursos ord (c10_recommender c10_graph) ''s1'' 1 =
           Inr [\<lparr>rec_course_code = ''BAE01'', rec_course_name = [], rec_score = 19 / 10,
                 rec_lineas_carrera = [], rec_is_failed = False, rec_is_obligatory = True,
                 rec_priority = 2,
                 rec_reasons =
                   \<lparr>content_similarity = 0, kg_neighbors = [], collaborative_score = 0,
                    lineas_performance = 0, prerequisites = [], prerequisites_met = True\<rparr>\<rparr>] \<and>
         (\<forall>self sid top_k cs h rs r.
            courses (rec_data_loader self) = Some cs \<and>
            get_student_history (rec_data_loader self) sid 10 = Inr h \<and>
            recomendar_cursos ord self sid top_k = Inr rs \<and> r \<in> set rs \<and>
            rec_course_code r \<in> OBLIGATORY_COURSES \<and>
            rec_course_code r \<notin> set (all_courses h) \<and>
            rec_course_code r \<notin> course_code ` set cs \<longrightarrow>
            rec_priority r = 2 \<and> rec_course_name r = [] \<and> rec_lineas_carrera r = [] \<and>
            cumple_prereqs self sid (rec_course_code r) = Inr True)"
proof -
  have "get_all_courses (rec_data_loader (c10_recommender c10_graph)) = Inr [''X1'', ''X2'']"
    by (simp add: get_all_courses_def c10_loader_def c10_recommender_def)
  moreover have "recomendar_cursos ord (c10_recommender c10_graph) ''s1'' 1 = Inr c10_result"
    by (simp only: c10_recomendar[OF assms] c10_attach)
  moreover have "\<forall>self sid top_k cs h rs r.
            courses (rec_data_loader self) = Some cs \<and>
            get_student_history (rec_data_loader self) sid 10 = Inr h \<and>
            recomendar_cursos ord self sid top_k = Inr rs \<and> r \<in> set rs \<and>
            rec_course_code r \<in> OBLIGATORY_COURSES \<and>
            rec_course_code r \<notin> set (all_courses h) \<and>
            rec_course_code r \<notin> course_code ` set cs \<longrightarrow>
            rec_priority r = 2 \<and> rec_course_name r = [] \<and> rec_lineas_carrera r = [] \<and>
            cumple_prereqs self sid (rec_course_code r) = Inr True"
    using recomendar_cursos_unknown_course by blast
  ultimately show ?thesis
    using c10_built[OF assms] BAE01_obligatory c10_obligatory(1)[OF BAE01_obligatory]
    by (simp add: c10_result_def)
qed

theorem recomendar_cursos_outside_catalog_witness:
  "set_order sorted_list_of_set \<and>
   recomendar_cursos sorted_list_of_set (c10_recommender c10_graph) ''s1'' 1 = Inr c10_result \<and>
   map rec_course_code c10_result = [''BAE01''] \<and>
   get_all_courses (rec_data_loader (c10_recommender c10_graph)) = Inr [''X1'', ''X2'']"
proof -
  have o: "set_order sorted_list_of_set" by (simp add: set_order_def)
  from recomendar_cursos_outside_catalog[OF o] o show ?thesis
    by (simp add: c10_result_def)
qed


section \<open>Graph construction\<close>

lemma has_node_add_node: "has_node (add_node n ty g) m \<longleftrightarrow> m = n \<or> has_node g m"
  by (auto simp: has_node_def add_node_def dom_update)

lemma has_node_ensure_node: "has_node (ensure_node n g) m \<longleftrightarrow> m = n \<or> has_node g m"
  by (auto simp: has_node_def ensure_node_def)

lemma has_node_edges_update: "has_node (edges_update f g) m = has_node g m"
  by (simp add: has_node_def)

lemma has_node_add_edge: "has_node (add_edge u v d g) m \<longleftrightarrow> m = u \<or> m = v \<or> has_node g m"
  by (auto simp: add_edge_def has_node_edges_update has_node_ensure_node)

lemma edges_add_node: "edges (add_node n ty g) = edges g"
  by (simp add: add_node_def)

lemma edges_ensure_node: "edges (ensure_node n g) = edges g"
  by (simp add: ensure_node_def)

lemma edges_add_edge: "edges (add_edge u v d g) = edges g @ [(u, v, d)]"
  by (simp add: add_edge_def edges_ensure_node)

lemma course_nodes_add_course:
  "course_nodes (add_node (''Course:'' @ c) ty g) = insert c (course_nodes g)"
  by (auto simp: course_nodes_def has_node_add_node)

lemma course_nodes_add_linea:
  "course_nodes (add_node (''Linea:'' @ l) ty g) = course_nodes g"
  by (auto simp: course_nodes_def has_node_add_node)

lemma course_nodes_add_student:
  "course_nodes (add_node (''Student:'' @ s) ty g) = course_nodes g"
  by (auto simp: course_nodes_def has_node_add_node)

lemma prereq_edges_add_node: "has_prereq_edges (add_node n ty g) = has_prereq_edges g"
  by (simp add: has_prereq_edges_def edges_add_node)

lemma prereq_edges_add_edge:
  "has_prereq_edges (add_edge u v d g) =
     has_prereq_edges g @ (if d = HAS_PREREQ then [(u, v, d)] else [])"
  by (simp add: has_prereq_edges_def edges_add_edge)

lemma step1:
  "course_nodes (fold (\<lambda>c. add_node (''Course:'' @ course_code c) ty) cs g) =
     course_code ` set cs \<union> course_nodes g \<and>
   has_prereq_edges (fold (\<lambda>c. add_node (''Course:'' @ course_code c) ty) cs g) =
     has_prereq_edges g"
  by (induction cs arbitrary: g)
    (auto simp: course_nodes_add_course prereq_edges_add_node simp del: append.simps)

lemma step2:
  "course_nodes (fold (\<lambda>linea. add_node (''Linea:'' @ linea) ty) ls g) = course_nodes g \<and>
   has_prereq_edges (fold (\<lambda>linea. add_node (''Linea:'' @ linea) ty) ls g) = has_prereq_edges g"
  by (induction ls arbitrary: g)
    (auto simp: course_nodes_add_linea prereq_edges_add_node simp del: append.simps)

lemma step3:
  "course_nodes (fold (\<lambda>student. add_node (''Student:'' @ student) ty) ss g) = course_nodes g \<and>
   has_prereq_edges (fold (\<lambda>student. add_node (''Student:'' @ student) ty) ss g) = has_prereq_edges g"
  by (induction ss arbitrary: g)
    (auto simp: course_nodes_add_student prereq_edges_add_node simp del: append.simps)

lemma course_nodes_belongs:
  "c \<in> course_nodes g \<Longrightarrow>
     course_nodes (add_edge (''Course:'' @ c) (''Linea:'' @ l) d g) = course_nodes g"
  by (auto simp: course_nodes_def has_node_add_edge)

lemma step4_inner:
  "c \<in> course_nodes g \<Longrightarrow>
   course_nodes (fold (\<lambda>linea. add_edge (''Course:'' @ c) (''Linea:'' @ linea) BELONGS_TO) ls g) =
     course_nodes g \<and>
   has_prereq_edges (fold (\<lambda>linea. add_edge (''Course:'' @ c) (''Linea:'' @ linea) BELONGS_TO) ls g) =
     has_prereq_edges g"
  by (induction ls arbitrary: g)
    (auto simp: course_nodes_belongs prereq_edges_add_edge simp del: append.simps)

lemma step4:
  "course_code ` set cs \<subseteq> course_nodes g \<Longrightarrow>
   course_nodes (fold (\<lambda>c g.
       fold (\<lambda>linea. add_edge (''Course:'' @ course_code c) (''Linea:'' @ linea) BELONGS_TO)
         (lineas_carrera c) g) cs g) = course_nodes g \<and>
   has_prereq_edges (fold (\<lambda>c g.
       fold (\<lambda>linea. add_edge (''Course:'' @ course_code c) (''Linea:'' @ linea) BELONGS_TO)
         (lineas_carrera c) g) cs g) = has_prereq_edges g"
proof (induction cs arbitrary: g)
  case Nil
  then show ?case by simp
next
  case (Cons c cs)
  then have c: "course_code c \<in> course_nodes g" by simp
  from step4_inner[OF c, of "lineas_carrera c"] Cons show ?case by (simp del: append.simps)
qed

lemma step5_inner:
  "c \<in> course_nodes g \<Longrightarrow>
   course_nodes (fold (\<lambda>prereq g'.
        if has_node g' (''Course:'' @ prereq)
        then add_edge (''Course:'' @ c) (''Course:'' @ prereq) HAS_PREREQ g'
        else g') ps g) = course_nodes g \<and>
   has_prereq_edges (fold (\<lambda>prereq g'.
        if has_node g' (''Course:'' @ prereq)
        then add_edge (''Course:'' @ c) (''Course:'' @ prereq) HAS_PREREQ g'
        else g') ps g) =
     has_prereq_edges g @
     map (\<lambda>p. (''Course:'' @ c, ''Course:'' @ p, HAS_PREREQ)) (filter (\<lambda>p. p \<in> course_nodes g) ps)"
proof (induction ps arbitrary: g)
  case Nil
  then show ?case by simp
next
  case (Cons p ps)
  show ?case
  proof (cases "has_node g (''Course:'' @ p)")
    case True
    then have p: "p \<in> course_nodes g" by (simp add: course_nodes_def)
    have same: "course_nodes (add_edge (''Course:'' @ c) (''Course:'' @ p) HAS_PREREQ g) = course_nodes g"
      using Cons.prems p by (auto simp: course_nodes_def has_node_add_edge)
    from Cons.IH[of "add_edge (''Course:'' @ c) (''Course:'' @ p) HAS_PREREQ g"] Cons.prems
    show ?thesis using True p same by (simp add: prereq_edges_add_edge del: append.simps)
  next
    case False
    then have p: "p \<notin> course_nodes g" by (simp add: course_nodes_def)
    from Cons.IH[OF Cons.prems] show ?thesis using False p by (simp del: append.simps)
  qed
qed

lemma step5:
  "course_code ` set cs \<subseteq> course_nodes g \<Longrightarrow>
   course_nodes (fold add_prereq_edges cs g) = course_nodes g \<and>
   has_prereq_edges (fold add_prereq_edges cs g) =
     has_prereq_edges g @
     concat (map (\<lambda>ci. map (\<lambda>p. (''Course:'' @ course_code ci, ''Course:'' @ p, HAS_PREREQ))
                          (filter (\<lambda>p. p \<in> course_nodes g) (prereq_codes ci))) cs)"
proof (induction cs arbitrary: g)
  case Nil
  then show ?case by simp
next
  case (Cons c cs)
  then have c: "course_code c \<in> course_nodes g" by simp
  from step5_inner[OF c, of "prereq_codes c"] have
    n: "course_nodes (add_prereq_edges c g) = course_nodes g" and
    e: "has_prereq_edges (add_prereq_edges c g) =
          has_prereq_edges g @
          map (\<lambda>p. (''Course:'' @ course_code c, ''Course:'' @ p, HAS_PREREQ))
            (filter (\<lambda>p. p \<in> course_nodes g) (prereq_codes c))"
    by (simp_all add: add_prereq_edges_def del: append.simps)
  from Cons.prems n have "course_code ` set cs \<subseteq> course_nodes (add_prereq_edges c g)" by simp
  from Cons.IH[OF this] show ?case by (simp add: n e del: append.simps)
qed

lemma step6:
  "has_prereq_edges (fold (\<lambda>row. add_edge (''Student:'' @ alumno row) (''Course:'' @ taken_code row)
                                   (TOOK (a row) (b row))) df g) = has_prereq_edges g \<and>
   course_nodes (fold (\<lambda>row. add_edge (''Student:'' @ alumno row) (''Course:'' @ taken_code row)
                                (TOOK (a row) (b row))) df g) = course_nodes g \<union> taken_code ` set df"
proof (induction df arbitrary: g)
  case Nil
  then show ?case by simp
next
  case (Cons r df)
  have n: "course_nodes (add_edge (''Student:'' @ alumno r) (''Course:'' @ taken_code r)
                           (TOOK (a r) (b r)) g) = insert (taken_code r) (course_nodes g)"
    by (auto simp: course_nodes_def has_node_add_edge)
  show ?case
    using Cons.IH[of "add_edge (''Student:'' @ alumno r) (''Course:'' @ taken_code r)
                           (TOOK (a r) (b r)) g"]
    by (simp add: n prereq_edges_add_edge del: append.simps)
qed

lemma build_graph_loaded:
  assumes cs: "courses dl = Some cs" and df: "courses_taken dl = Some df"
  shows "\<exists>g. build_graph ord dl thr empty_graph = Inr g \<and>
           has_prereq_edges g =
             concat (map (\<lambda>ci. map (\<lambda>p. (''Course:'' @ course_code ci, ''Course:'' @ p, HAS_PREREQ))
                                  (filter (\<lambda>p. p \<in> course_code ` set cs) (prereq_codes ci))) cs) \<and>
           course_nodes g = course_code ` set cs \<union> taken_code ` set df"
proof -
  define g1 where "g1 = fold (\<lambda>c. add_node (''Course:'' @ course_code c) ''course'') cs empty_graph"
  define g2 where "g2 = fold (\<lambda>linea. add_node (''Linea:'' @ linea) ''linea'')
                          (ord (set (concat (map lineas_carrera cs)))) g1"
  define g3 where "g3 = fold (\<lambda>student. add_node (''Student:'' @ student) ''student'')
                          (sort (remdups (map alumno df))) g2"
  define g4 where "g4 = fold (\<lambda>c g.
                             fold (\<lambda>linea.
                               add_edge (''Course:'' @ course_code c) (''Linea:'' @ linea) BELONGS_TO)
                               (lineas_carrera c) g) cs g3"
  define g5 where "g5 = fold add_prereq_edges cs g4"
  have e0: "course_nodes empty_graph = {}" "has_prereq_edges empty_graph = []"
    by (simp_all add: course_nodes_def has_prereq_edges_def empty_graph_def has_node_def)
  have p1: "course_nodes g1 = course_code ` set cs" "has_prereq_edges g1 = []"
    using step1[of "''course''" cs empty_graph] by (simp_all add: g1_def e0)
  have p2: "course_nodes g2 = course_code ` set cs" "has_prereq_edges g2 = []"
    using step2[of "''linea''" _ g1] by (simp_all add: g2_def p1)
  have p3: "course_nodes g3 = course_code ` set cs" "has_prereq_edges g3 = []"
    using step3[of "''student''" _ g2] by (simp_all add: g3_def p2)
  have p4: "course_nodes g4 = course_code ` set cs" "has_prereq_edges g4 = []"
    using step4[of cs g3] by (simp_all add: g4_def p3)
  have p5: "has_prereq_edges g5 =
             concat (map (\<lambda>ci. map (\<lambda>p. (''Course:'' @ course_code ci, ''Course:'' @ p, HAS_PREREQ))
                                  (filter (\<lambda>p. p \<in> course_code ` set cs) (prereq_codes ci))) cs)"
      "course_nodes g5 = course_code ` set cs"
    using step5[of cs g4] by (simp_all add: g5_def p4)
  have "build_graph ord dl thr empty_graph =
          Inr (fold (\<lambda>row. add_edge (''Student:'' @ alumno row) (''Course:'' @ taken_code row)
                               (TOOK (grade row) (grade row \<ge> thr))) df g5)"
    by (simp add: build_graph_def cs df get_all_students_def Let_def g1_def g2_def g3_def g4_def g5_def
          del: append.simps)
  then show ?thesis using step6[of grade "\<lambda>row. grade row \<ge> thr" df g5] p5 by simp
qed

lemma validate_invalid_prereqs:
  assumes cs: "courses dl = Some cs" and df: "courses_taken dl = Some df"
  shows "\<exists>rep. validate_data_consistency dl = Inr rep \<and>
           (\<forall>p. (\<exists>S. InvalidPrereqs S \<in> set (issues rep) \<and> p \<in> S) \<longleftrightarrow>
                  p \<in> set (concat (map prereq_codes cs)) \<and> p \<notin> course_code ` set cs)"
  by (auto simp: validate_data_consistency_def cs df Let_def)

lemma prereq_edge_member:
  "(u, v, HAS_PREREQ) \<in> set (edges g) \<longleftrightarrow> (u, v, HAS_PREREQ) \<in> set (has_prereq_edges g)"
  by (auto simp: has_prereq_edges_def)

text \<open>
  C8.  With catalog and history loaded, \<open>build_graph\<close> on the empty graph returns a graph
  and raises nothing.  Its \<open>HAS_PREREQ\<close> edges are, course by course and prerequisite by
  prerequisite, exactly the declared prerequisites that are catalog courses (the course
  nodes at that step); a prerequisite outside the catalog gets no edge.  The validation
  report lists a code in an invalid-prerequisite issue exactly when some course declares
  it and the catalog does not have it.
\<close>

theorem build_graph_dangling_prereqs:
  assumes cs: "courses dl = Some cs" and df: "courses_taken dl = Some df"
  shows "\<exists>g rep. build_graph ord dl thr empty_graph = Inr g \<and>
           validate_data_consistency dl = Inr rep \<and>
           has_prereq_edges g =
             concat (map (\<lambda>ci. map (\<lambda>p. (''Course:'' @ course_code ci, ''Course:'' @ p, HAS_PREREQ))
                                  (filter (\<lambda>p. p \<in> course_code ` set cs) (prereq_codes ci))) cs) \<and>
           (\<forall>c p. (''Course:'' @ c, ''Course:'' @ p, HAS_PREREQ) \<in> set (edges g) \<longleftrightarrow>
                    (\<exists>ci\<in>set cs. course_code ci = c \<and> p \<in> set (prereq_codes ci)) \<and>
                    p \<in> course_code ` set cs) \<and>
           (\<forall>p. has_node g (''Course:'' @ p) \<longleftrightarrow>
                  p \<in> course_code ` set cs \<or> p \<in> taken_code ` set df) \<and>
           (\<forall>p. (\<exists>S. InvalidPrereqs S \<in> set (issues rep) \<and> p \<in> S) \<longleftrightarrow>
                  p \<in> set (concat (map prereq_codes cs)) \<and> p \<notin> course_code ` set cs)"
proof -
  from build_graph_loaded[OF cs df, of ord thr] obtain g where
    g: "build_graph ord dl thr empty_graph = Inr g" and
    e: "has_prereq_edges g =
             concat (map (\<lambda>ci. map (\<lambda>p. (''Course:'' @ course_code ci, ''Course:'' @ p, HAS_PREREQ))
                                  (filter (\<lambda>p. p \<in> course_code ` set cs) (prereq_codes ci))) cs)" and
    n: "course_nodes g = course_code ` set cs \<union> taken_code ` set df"
    by blast
  from validate_invalid_prereqs[OF cs df] obtain rep where
    rep: "validate_data_consistency dl = Inr rep" and
    inv: "\<forall>p. (\<exists>S. InvalidPrereqs S \<in> set (issues rep) \<and> p \<in> S) \<longleftrightarrow>
                  p \<in> set (concat (map prereq_codes cs)) \<and> p \<notin> course_code ` set cs"
    by blast
  have m: "\<forall>c p. (''Course:'' @ c, ''Course:'' @ p, HAS_PREREQ) \<in> set (edges g) \<longleftrightarrow>
                    (\<exists>ci\<in>set cs. course_code ci = c \<and> p \<in> set (prereq_codes ci)) \<and>
                    p \<in> course_code ` set cs"
    unfolding prereq_edge_member e by auto
  have hn: "\<forall>p. has_node g (''Course:'' @ p) \<longleftrightarrow>
                  p \<in> course_code ` set cs \<or> p \<in> taken_code ` set df"
    using n by (auto simp: course_nodes_def)
  from g rep e m hn inv show ?thesis by blast
qed

lemma demo_courses: "courses demo_loader = Some demo_catalog"
  "courses_taken demo_loader = Some demo_taken"
  by (simp_all add: demo_loader_def)

theorem build_graph_dangling_prereqs_witness:
  "courses demo_loader = Some demo_catalog \<and> courses_taken demo_loader = Some demo_taken \<and>
   build_graph sorted_list_of_set demo_loader 11 empty_graph = Inr demo_graph \<and>
   (''Course:X3'', ''Course:X2'', HAS_PREREQ) \<in> set (edges demo_graph) \<and>
   (''Course:X3'', ''Course:X9'', HAS_PREREQ) \<notin> set (edges demo_graph) \<and>
   (\<exists>rep S. validate_data_consistency demo_loader = Inr rep \<and>
            InvalidPrereqs S \<in> set (issues rep) \<and> ''X9'' \<in> S)"
proof -
  from build_graph_dangling_prereqs[OF demo_courses, of sorted_list_of_set 11] demo_built
  obtain rep where
    rep: "validate_data_consistency demo_loader = Inr rep" and
    m: "\<forall>c p. (''Course:'' @ c, ''Course:'' @ p, HAS_PREREQ) \<in> set (edges demo_graph) \<longleftrightarrow>
                    (\<exists>ci\<in>set demo_catalog. course_code ci = c \<and> p \<in> set (prereq_codes ci)) \<and>
                    p \<in> course_code ` set demo_catalog" and
    inv: "\<forall>p. (\<exists>S. InvalidPrereqs S \<in> set (issues rep) \<and> p \<in> S) \<longleftrightarrow>
                  p \<in> set (concat (map prereq_codes demo_catalog)) \<and>
                  p \<notin> course_code ` set demo_catalog"
    by auto
  from m[rule_format, of "''X3''" "''X2''"] have
    a: "(''Course:X3'', ''Course:X2'', HAS_PREREQ) \<in> set (edges demo_graph)"
    by (simp add: demo_catalog_def)
  from m[rule_format, of "''X3''" "''X9''"] have
    b: "(''Course:X3'', ''Course:X9'', HAS_PREREQ) \<notin> set (edges demo_graph)"
    by (simp add: demo_catalog_def)
  from inv[rule_format, of "''X9''"] have
    c: "\<exists>S. InvalidPrereqs S \<in> set (issues rep) \<and> ''X9'' \<in> S"
    by (simp add: demo_catalog_def)
  from demo_courses demo_built a b c rep show ?thesis by blast
qed

section \<open>Embedding lookups and the embedding update\<close>

text \<open>
  C9.  \<open>get_student_embedding\<close> and \<open>get_course_embedding\<close> return the stored vector when
  the node id is in the embedding table and the zero vector of \<open>embedding_dim\<close> entries
  otherwise.  Both are total: there is no error result.
\<close>

theorem get_embedding_fallback:
  "(\<forall>v. embeddings kg (''Student:'' @ sid) = Some v \<longrightarrow> get_student_embedding kg sid = v) \<and>
   (embeddings kg (''Student:'' @ sid) = None \<longrightarrow>
      get_student_embedding kg sid = replicate (embedding_dim kg) 0) \<and>
   (\<forall>v. embeddings kg (''Course:'' @ code) = Some v \<longrightarrow> get_course_embedding kg code = v) \<and>
   (embeddings kg (''Course:'' @ code) = None \<longrightarrow>
      get_course_embedding kg code = replicate (embedding_dim kg) 0)"
  by (simp add: get_student_embedding_def get_course_embedding_def del: append.simps)

theorem get_embedding_fallback_witness:
  "embeddings kg_example (''Student:'' @ ''s1'') = Some [1, 2] \<and>
   get_student_embedding kg_example ''s1'' = [1, 2] \<and>
   embeddings kg_example (''Student:'' @ ''s9'') = None \<and>
   get_student_embedding kg_example ''s9'' = [0, 0] \<and>
   embeddings kg_example (''Course:'' @ ''X1'') = Some [3, 4] \<and>
   get_course_embedding kg_example ''X1'' = [3, 4] \<and>
   embeddings kg_example (''Course:'' @ ''X9'') = None \<and>
   get_course_embedding kg_example ''X9'' = [0, 0]"
proof -
  have e: "embeddings kg_example (''Student:'' @ ''s1'') = Some [1, 2]"
      "embeddings kg_example (''Student:'' @ ''s9'') = None"
      "embeddings kg_example (''Course:'' @ ''X1'') = Some [3, 4]"
      "embeddings kg_example (''Course:'' @ ''X9'') = None"
      "replicate (embedding_dim kg_example) (0::real) = [0, 0]"
    by (simp_all add: kg_example_def numeral_2_eq_2)
  from get_embedding_fallback[of kg_example "''s1''" "''X1''"]
       get_embedding_fallback[of kg_example "''s9''" "''X9''"] e
  show ?thesis by simp
qed

lemma context_positions_set:
  "set (context_positions n i) = {j. j < n \<and> j \<noteq> i \<and> i \<le> j + 5 \<and> j \<le> i + 5}"
  by (auto simp: context_positions_def window_size_def Let_def)

lemma context_positions_sorted:
  "sorted (context_positions n i) \<and> distinct (context_positions n i)"
  by (simp add: context_positions_def Let_def sorted_wrt_filter)

text \<open>
  C7 (as amended).  For a pair of distinct nodes the update computes the gradient from the
  embeddings before the update, subtracts \<open>gradient * emb[context]\<close> from the node's
  embedding, and then subtracts from the context's embedding \<open>gradient\<close> times the node's
  \<^emph>\<open>already updated\<close> embedding.  For position \<open>i\<close> the pairs are the positions \<open>j \<noteq> i\<close> of the
  walk with \<open>|i - j| \<le> 5\<close>, in ascending order, and afterwards the node's embedding is
  divided by its norm plus \<open>1e-10\<close>.
\<close>

theorem update_embeddings_rule:
  "(\<forall>u v. emb node = Some u \<and> emb context_node = Some v \<and> length u = length v \<and>
          node \<noteq> context_node \<longrightarrow>
      pair_update emb node context_node lr =
        Inr (let gradient = (dot u v - 1) * lr; u' = vsub u (scale gradient v)
             in emb(node \<mapsto> u', context_node \<mapsto> vsub v (scale gradient u')))) \<and>
   (\<forall>u. emb node = Some u \<longrightarrow>
      pair_update emb node node lr =
        Inr (let gradient = (dot u u - 1) * lr; u' = vsub u (scale gradient u)
             in emb(node \<mapsto> vsub u' (scale gradient u')))) \<and>
   set (context_positions n i) = {j. j < n \<and> j \<noteq> i \<and> i \<le> j + 5 \<and> j \<le> i + 5} \<and>
   sorted (context_positions n i) \<and> distinct (context_positions n i) \<and>
   update_position walk lr i emb =
     (case fold_err (\<lambda>j e. pair_update e (walk ! i) (walk ! j) lr)
             (context_positions (length walk) i) emb of
        Inl e \<Rightarrow> Inl e
      | Inr emb' \<Rightarrow> normalize (walk ! i) emb') \<and>
   (\<forall>w. emb node = Some w \<longrightarrow>
      normalize node emb = Inr (emb(node \<mapsto> map (\<lambda>x. x / (norm2 w + 1 / 10 ^ 10)) w))) \<and>
   update_embeddings walk lr emb = fold_err (update_position walk lr) [0..<length walk] emb"
  by (simp add: pair_update_def Let_def context_positions_set context_positions_sorted
      update_position_def normalize_def update_embeddings_def)

theorem update_embeddings_rule_witness:
  "emb_example ''a'' = Some [2] \<and> emb_example ''b'' = Some [1] \<and>
   pair_update emb_example ''a'' ''b'' 0.01 =
     Inr (emb_example(''a'' \<mapsto> [199 / 100], ''b'' \<mapsto> [9801 / 10000])) \<and>
   context_positions 8 6 = [1, 2, 3, 4, 5, 7]"
proof -
  have e: "emb_example ''a'' = Some [2]" "emb_example ''b'' = Some [1]"
    by (simp_all add: emb_example_def)
  have c: "context_positions 8 6 = [1, 2, 3, 4, 5, 7]"
    by code_simp
  from update_embeddings_rule[of emb_example "''a''" "''b''" "0.01"] e
  have "pair_update emb_example ''a'' ''b'' 0.01 =
     Inr (emb_example(''a'' \<mapsto> [199 / 100], ''b'' \<mapsto> [9801 / 10000]))"
    by (simp add: Let_def dot_def vsub_def scale_def)
  with e c show ?thesis by simp
qed

text \<open>
  The claim as stated fails: with \<open>emb[a] = [2]\<close>, \<open>emb[b] = [1]\<close> the gradient is 0.01 and
  the code leaves \<open>emb[b] = 1 - 0.01 * 1.99\<close>, not \<open>1 - 0.01 * 2\<close>.
\<close>

theorem update_embeddings_counterexample:
  "pair_update emb_example ''a'' ''b'' 0.01 =
     Inr (emb_example(''a'' \<mapsto> [199 / 100], ''b'' \<mapsto> [9801 / 10000])) \<and>
   pair_update_pre emb_example ''a'' ''b'' 0.01 =
     Inr (emb_example(''a'' \<mapsto> [199 / 100], ''b'' \<mapsto> [98 / 100])) \<and>
   pair_update emb_example ''a'' ''b'' 0.01 \<noteq> pair_update_pre emb_example ''a'' ''b'' 0.01"
proof -
  have a: "pair_update emb_example ''a'' ''b'' 0.01 =
     Inr (emb_example(''a'' \<mapsto> [199 / 100], ''b'' \<mapsto> [9801 / 10000]))"
    by (simp add: pair_update_def emb_example_def Let_def dot_def vsub_def scale_def)
  have b: "pair_update_pre emb_example ''a'' ''b'' 0.01 =
     Inr (emb_example(''a'' \<mapsto> [199 / 100], ''b'' \<mapsto> [98 / 100]))"
    by (simp add: pair_update_pre_def emb_example_def Let_def dot_def vsub_def scale_def)
  have "(emb_example(''a'' \<mapsto> [199 / 100], ''b'' \<mapsto> [9801 / 10000])) ''b'' \<noteq>
        (emb_example(''a'' \<mapsto> [199 / 100], ''b'' \<mapsto> [98 / 100::real])) ''b''"
    by simp
  then have "emb_example(''a'' \<mapsto> [199 / 100], ''b'' \<mapsto> [9801 / 10000]) \<noteq>
        emb_example(''a'' \<mapsto> [199 / 100], ''b'' \<mapsto> [98 / 100::real])"
    by metis
  with a b show ?thesis by simp
qed

section \<open>The collaborative filter's ranking\<close>

text \<open>
  Masking moves the interacted items behind all others in the ranking.  As long as
  \<open>top_k\<close> is not negative and not larger than the number of items the student has not
  interacted with, every returned course comes from an index whose entry in the student's
  row of the interaction matrix is 0.
\<close>

lemma sorted_PInf_split:
  assumes "sorted (map f xs)"
  shows "xs = filter (\<lambda>x. f x \<noteq> PInf) xs @ filter (\<lambda>x. f x = PInf) xs"
  using assms
proof (induction xs)
  case Nil
  then show ?case by simp
next
  case (Cons x xs)
  show ?case
  proof (cases "f x = PInf")
    case True
    have "\<forall>y\<in>set xs. f y = PInf"
    proof
      fix y assume "y \<in> set xs"
      with Cons.prems True have "PInf \<le> f y" by auto
      then show "f y = PInf" by (cases "f y") simp_all
    qed
    then have "filter (\<lambda>x. f x \<noteq> PInf) xs = []" "filter (\<lambda>x. f x = PInf) xs = xs"
      by (simp_all add: filter_empty_conv filter_id_conv)
    with True show ?thesis by simp
  next
    case False
    with Cons show ?thesis by simp
  qed
qed

lemma take_unmasked:
  assumes "sorted (map f xs)" and "k \<le> length (filter (\<lambda>x. f x \<noteq> PInf) xs)"
    and "i \<in> set (take k xs)"
  shows "f i \<noteq> PInf"
proof -
  have "take k xs = take k (filter (\<lambda>x. f x \<noteq> PInf) xs @ filter (\<lambda>x. f x = PInf) xs)"
    using sorted_PInf_split[OF assms(1)] by simp
  also have "\<dots> = take k (filter (\<lambda>x. f x \<noteq> PInf) xs)" using assms(2) by simp
  finally have "i \<in> set (filter (\<lambda>x. f x \<noteq> PInf) xs)" using assms(3) by (auto dest: in_set_takeD)
  then show ?thesis by simp
qed

lemma argsort_take_unmasked:
  assumes "k \<le> length (filter (\<lambda>i. ks ! i \<noteq> PInf) [0..<length ks])"
    and "i \<in> set (take k (argsort ks))"
  shows "i < length ks \<and> ks ! i \<noteq> PInf"
proof -
  have s: "sorted (map (\<lambda>i. ks ! i) (argsort ks))"
    unfolding argsort_def by (rule sorted_sort_key)
  have "filter (\<lambda>i. ks ! i \<noteq> PInf) (argsort ks) =
          sort_key (\<lambda>i. ks ! i) (filter (\<lambda>i. ks ! i \<noteq> PInf) [0..<length ks])"
    unfolding argsort_def by (rule filter_sort)
  then have "length (filter (\<lambda>i. ks ! i \<noteq> PInf) (argsort ks)) =
             length (filter (\<lambda>i. ks ! i \<noteq> PInf) [0..<length ks])"
    by simp
  with assms(1) have k: "k \<le> length (filter (\<lambda>i. ks ! i \<noteq> PInf) (argsort ks))" by simp
  have "i \<in> set (argsort ks)" using assms(2) by (auto dest: in_set_takeD)
  then have "i < length ks" by (simp add: argsort_def)
  with take_unmasked[OF s k assms(2)] show ?thesis by simp
qed

lemma build_recommendations_member:
  assumes "build_recommendations i2c scores idxs = Inr recs" and "(code, sc) \<in> set recs"
  shows "\<exists>idx\<in>set idxs. i2c idx = Some code \<and> sc = scores ! idx"
  using assms
proof (induction idxs arbitrary: recs)
  case Nil
  then show ?case by simp
next
  case (Cons idx idxs)
  then show ?case by (fastforce split: option.splits sum.splits)
qed

lemma recommend_unseen_within_bound:
  assumes r: "recommend cf sid top_k = Inr recs"
    and sidx: "student_to_idx (cf_preprocessor cf) sid = Some student_idx"
    and M: "interaction_matrix cf = Some M"
    and V: "item_factors cf = Some V"
    and cols: "length (M ! student_idx) = length V"
    and k: "0 \<le> top_k"
           "nat top_k \<le> length (filter (\<lambda>j. (M ! student_idx) ! j = 0) [0..<length V])"
    and m: "(code, sc) \<in> set recs"
  shows "\<exists>idx < length V. idx_to_course (cf_preprocessor cf) idx = Some code \<and>
           (M ! student_idx) ! idx = 0"
proof -
  from r sidx M V obtain U where U: "user_factors cf = Some U"
    by (auto simp: recommend_def split: option.splits)
  define scores where "scores = map (\<lambda>row. dot row (U ! student_idx)) V"
  define taken where "taken = filter (\<lambda>j. (M ! student_idx) ! j \<noteq> 0) [0..<length (M ! student_idx)]"
  define ks where "ks = map neg_xreal
      (map (\<lambda>j. if j \<in> set taken then MInf else Fin (scores ! j)) [0..<length scores])"
  from r sidx M V U have
    b: "build_recommendations (idx_to_course (cf_preprocessor cf)) scores
          (py_prefix (argsort ks) top_k) = Inr recs"
    unfolding ks_def taken_def scores_def
    by (auto simp: recommend_def Let_def split: if_splits)
  have len: "length ks = length V" by (simp add: ks_def scores_def)
  have key: "\<And>j. j < length V \<Longrightarrow> ks ! j \<noteq> PInf \<longleftrightarrow> (M ! student_idx) ! j = 0"
    by (simp add: ks_def scores_def taken_def cols)
  have "filter (\<lambda>i. ks ! i \<noteq> PInf) [0..<length ks] =
        filter (\<lambda>j. (M ! student_idx) ! j = 0) [0..<length V]"
    unfolding len by (rule filter_cong) (simp_all add: key)
  with k(2) have bound: "nat top_k \<le> length (filter (\<lambda>i. ks ! i \<noteq> PInf) [0..<length ks])"
    by simp
  from build_recommendations_member[OF b m] obtain idx where
    idx: "idx \<in> set (py_prefix (argsort ks) top_k)" and
    c: "idx_to_course (cf_preprocessor cf) idx = Some code"
    by blast
  from idx k(1) have "idx \<in> set (take (nat top_k) (argsort ks))" by (simp add: py_prefix_def)
  from argsort_take_unmasked[OF bound this] have "idx < length V" "(M ! student_idx) ! idx = 0"
    using key len by auto
  with c show ?thesis by blast
qed


text \<open>
  C5.  Student \<open>s1\<close> has interacted with \<open>I1\<close>.  With \<open>top_k = 1\<close> the masked course is not
  returned; with \<open>top_k = 2\<close> (or the default 10) it is, after the unmasked one and with
  its raw score.
\<close>

theorem recommend_returns_interacted:
  "student_to_idx (cf_preprocessor cf_example) ''s1'' = Some 0 \<and>
   interaction_matrix cf_example = Some [[1, 0]] \<and>
   idx_to_course (cf_preprocessor cf_example) 0 = Some ''I1'' \<and>
   recommend cf_example ''s1'' 1 = Inr [(''I2'', 2)] \<and>
   recommend cf_example ''s1'' 2 = Inr [(''I2'', 2), (''I1'', 3)] \<and>
   recommend cf_example ''s1'' 10 = Inr [(''I2'', 2), (''I1'', 3)]"
  by (simp add: recommend_def cf_example_def dot_def py_prefix_def argsort_def Let_def)


end
